theory Spec2Isabelle
  imports Complex_Main
begin

section \<open>Collaborators of the game list widget\<close>

text \<open>
  \<^verbatim>\<open>GameList.cpp\<close> is the controller of the game list of the Qt front end. Everything it
  calls lives elsewhere: the catalogue (\<^verbatim>\<open>GameListModel\<close>), the per-file metadata
  (\<^verbatim>\<open>GameFile\<close>), the disc codec (\<^verbatim>\<open>DiscIO\<close>), the file system (\<^verbatim>\<open>File\<close>) and the
  toolkit. The enumerations come from \<^verbatim>\<open>DiscIO/Enums.h\<close> and \<^verbatim>\<open>DiscIO/Blob.h\<close>; the widget
  itself only ever names \<^verbatim>\<open>GAMECUBE_DISC\<close>, \<^verbatim>\<open>WII_DISC\<close>, \<^verbatim>\<open>WII_WAD\<close>, \<^verbatim>\<open>GCZ\<close> and
  \<^verbatim>\<open>PLAIN\<close>, every other enumerator takes the fall-through branch of its tests.
\<close>

datatype Platform = GAMECUBE_DISC | WII_DISC | WII_WAD | ELF_DOL

datatype BlobType = PLAIN | DRIVE | DIRECTORY | GCZ | CISO | WBFS

text \<open>What \<^verbatim>\<open>GameFile(path)\<close> answers for one file at the moment it is asked.\<close>

record GameFile =
  GetPlatformID :: Platform
  GetBlobType :: BlobType
  IsInstalled :: bool
  GetGameID :: string

datatype StandardButton = Yes | No | Cancel | Retry | Abort

datatype error = IndexOutOfRange | InvalidPointer | IntConversionUndefined

subsection \<open>The catalogue\<close>

text \<open>
  Modelled from the spec: \<^verbatim>\<open>GameListModel\<close> (\<^verbatim>\<open>rowCount\<close>, \<^verbatim>\<open>GetPath\<close>, \<^verbatim>\<open>RemoveGame\<close>) is not
  part of this file. The spec lists the catalogue as \<^verbatim>\<open>rowCount()\<close>, \<^verbatim>\<open>pathAt(row)\<close>,
  \<^verbatim>\<open>removeGame(path)\<close>, a game reference being a file system path: the catalogue is
  the list of the paths of its rows, \<^verbatim>\<open>removeGame\<close> removes the entry of the given path.
  Reading a row that does not exist is an error of the caller.
\<close>

type_synonym GameListModel = "string list"

definition rowCount :: "GameListModel \<Rightarrow> int" where
  "rowCount m = int (length m)"

definition GetPath :: "GameListModel \<Rightarrow> int \<Rightarrow> error + string" where
  "GetPath m r = (if 0 \<le> r \<and> r < rowCount m then Inr (m ! nat r) else Inl IndexOutOfRange)"

definition RemoveGame :: "GameListModel \<Rightarrow> string \<Rightarrow> GameListModel" where
  "RemoveGame m path = remove1 path m"

subsection \<open>Views, proxies and the widget state\<close>

text \<open>
  A \<^verbatim>\<open>QModelIndex\<close> is a row and a column; the invalid index has row and column \<open>-1\<close>.
  A proxy model is the list of the source rows it shows, in the order it shows them
  (filtered and sorted); \<^verbatim>\<open>mapToSource\<close> looks a proxy row up and answers the invalid
  index for an index the proxy does not have. A view keeps the indexes selected in it.
\<close>

record QModelIndex =
  row :: int
  column :: int

definition invalid_index :: QModelIndex where
  "invalid_index = \<lparr>row = -1, column = -1\<rparr>"

type_synonym QSortFilterProxyModel = "nat list"

definition mapToSource :: "QSortFilterProxyModel \<Rightarrow> QModelIndex \<Rightarrow> QModelIndex" where
  "mapToSource proxy i =
     (if 0 \<le> row i \<and> row i < int (length proxy)
      then \<lparr>row = int (proxy ! nat (row i)), column = column i\<rparr>
      else invalid_index)"

record QAbstractItemView =
  selectedIndexes :: "QModelIndex list"

definition hasSelection :: "QAbstractItemView \<Rightarrow> bool" where
  "hasSelection v = (selectedIndexes v \<noteq> [])"

datatype Widget = W_table | W_list | W_empty

record GameList =
  m_model :: GameListModel
  m_table_proxy :: QSortFilterProxyModel
  m_list_proxy :: QSortFilterProxyModel
  m_table :: QAbstractItemView
  m_list :: QAbstractItemView
  m_prefer_table :: bool
  currentWidget :: Widget

section \<open>Choosing the view\<close>

definition ConsiderViewChange :: "GameList \<Rightarrow> GameList" where
  "ConsiderViewChange st =
     (if rowCount (m_model st) > 0
      then (if m_prefer_table st then st\<lparr>currentWidget := W_table\<rparr>
            else st\<lparr>currentWidget := W_list\<rparr>)
      else st\<lparr>currentWidget := W_empty\<rparr>)"

definition SetPreferredView :: "bool \<Rightarrow> GameList \<Rightarrow> GameList" where
  "SetPreferredView table st = ConsiderViewChange (st\<lparr>m_prefer_table := table\<rparr>)"

section \<open>Selection resolution\<close>

text \<open>
  \<^verbatim>\<open>GetSelectedGame\<close> (lines 371-392). The table is consulted when it is the current
  widget, the icon list in every other case, the empty placeholder included. The
  result is the empty string when nothing is selected.
\<close>

definition GetSelectedGame :: "GameList \<Rightarrow> error + string" where
  "GetSelectedGame st =
     (let (view, proxy) =
            (if currentWidget st = W_table then (m_table st, m_table_proxy st)
             else (m_list st, m_list_proxy st))
      in if hasSelection view
         then (case selectedIndexes view of
                 [] \<Rightarrow> Inl IndexOutOfRange
               | i # _ \<Rightarrow> GetPath (m_model st) (row (mapToSource proxy i)))
         else Inr [])"

text \<open>
  What the toolkit and the constructor keep true of the widget between two events:
  a proxy shows rows of the catalogue only, a view selects rows of its proxy only, and
  the current widget is the one \<^verbatim>\<open>ConsiderViewChange\<close> chose for the present catalogue
  (it runs in the constructor, on every insertion and removal of rows and on every
  change of the preference).
\<close>

definition selection_ok :: "QSortFilterProxyModel \<Rightarrow> QAbstractItemView \<Rightarrow> bool" where
  "selection_ok proxy view =
     list_all (\<lambda>i. 0 \<le> row i \<and> row i < int (length proxy)) (selectedIndexes view)"

definition proxy_ok :: "GameListModel \<Rightarrow> QSortFilterProxyModel \<Rightarrow> bool" where
  "proxy_ok m proxy = list_all (\<lambda>r. r < length m) proxy"

definition GameList_inv :: "GameList \<Rightarrow> bool" where
  "GameList_inv st =
     (proxy_ok (m_model st) (m_table_proxy st) \<and> proxy_ok (m_model st) (m_list_proxy st) \<and>
      selection_ok (m_table_proxy st) (m_table st) \<and>
      selection_ok (m_list_proxy st) (m_list st) \<and>
      currentWidget (ConsiderViewChange st) = currentWidget st)"

text \<open>
  Selection resolution in the words of the specification, to compare with the code:
  take the active view; without a selected row the answer is empty; otherwise the first
  selected visible row is mapped back to the catalogue row it shows and that row's
  path is the answer. The placeholder shown for an empty catalogue has no rows.
\<close>

definition first_selected :: "GameListModel \<Rightarrow> QSortFilterProxyModel \<Rightarrow> QAbstractItemView \<Rightarrow> string" where
  "first_selected m proxy view =
     (case selectedIndexes view of [] \<Rightarrow> [] | i # _ \<Rightarrow> m ! (proxy ! nat (row i)))"

definition spec_getSelectedGame :: "GameList \<Rightarrow> string" where
  "spec_getSelectedGame st =
     (case currentWidget st of
        W_table \<Rightarrow> first_selected (m_model st) (m_table_proxy st) (m_table st)
      | W_list \<Rightarrow> first_selected (m_model st) (m_list_proxy st) (m_list st)
      | W_empty \<Rightarrow> [])"

section \<open>The context menu\<close>

text \<open>
  A menu is the list of its entries in the order they were added. An action carries its
  label, the slot it triggers, whether it is enabled and the handlers connected to the
  widget's \<^verbatim>\<open>EmulationStarted\<close> and \<^verbatim>\<open>EmulationStopped\<close> signals on its behalf:
  the three lambdas of lines 166-175.
\<close>

datatype Slot =
    SLOT_OpenProperties | SLOT_OpenWiki | SLOT_SetDefaultISO | SLOT_DecompressISO
  | SLOT_CompressISO | SLOT_InstallWAD | SLOT_UninstallWAD | SLOT_OpenSaveFolder
  | SLOT_ExportWiiSave | SLOT_OpenContainingFolder | SLOT_DeleteFile

datatype Connection =
    Started_setEnabled bool
  | Stopped_setEnabled bool
  | Stopped_setEnabled_IsInstalled string

record QAction =
  text_of :: string
  triggered :: Slot
  enabled :: bool
  connections :: "Connection list"

datatype MenuEntry = Action QAction | Separator

type_synonym QMenu = "MenuEntry list"

definition new_QAction :: "string \<Rightarrow> Slot \<Rightarrow> QAction" where
  "new_QAction t s = \<lparr>text_of = t, triggered = s, enabled = True, connections = []\<rparr>"

definition addAction :: "string \<Rightarrow> Slot \<Rightarrow> MenuEntry" where
  "addAction t s = Action (new_QAction t s)"

definition setEnabled :: "bool \<Rightarrow> QAction \<Rightarrow> QAction" where
  "setEnabled b a = a\<lparr>enabled := b\<rparr>"

definition connect :: "Connection \<Rightarrow> QAction \<Rightarrow> QAction" where
  "connect c a = a\<lparr>connections := connections a @ [c]\<rparr>"

text \<open>Lines 144-155: the entries of a disc image.\<close>

definition disc_entries :: "BlobType \<Rightarrow> QMenu" where
  "disc_entries blob_type =
     [addAction ''Default ISO'' SLOT_SetDefaultISO] @
     (if blob_type = GCZ then [addAction ''Decompress ISO'' SLOT_DecompressISO]
      else if blob_type = PLAIN then [addAction ''Compress ISO'' SLOT_CompressISO]
      else []) @
     [Separator]"

text \<open>
  Lines 156-178: the entries of a WAD. Both actions are created, then each in turn gets
  its handler for \<^verbatim>\<open>EmulationStarted\<close>, is enabled when the core is not running and is
  added to the menu; the handlers for \<^verbatim>\<open>EmulationStopped\<close> are connected last.
\<close>

definition wad_entries :: "bool \<Rightarrow> string \<Rightarrow> QMenu" where
  "wad_entries IsRunning game =
     (let prepare = (\<lambda>a. setEnabled (\<not> IsRunning) (connect (Started_setEnabled False) a));
          wad_install_action = prepare (new_QAction ''Install to the NAND'' SLOT_InstallWAD);
          wad_uninstall_action = prepare (new_QAction ''Uninstall from the NAND'' SLOT_UninstallWAD)
      in [Action (connect (Stopped_setEnabled True) wad_install_action),
          Action (connect (Stopped_setEnabled_IsInstalled game) wad_uninstall_action),
          Separator])"

definition build_menu :: "(string \<Rightarrow> GameFile) \<Rightarrow> bool \<Rightarrow> string \<Rightarrow> QMenu" where
  "build_menu files IsRunning game =
     (let platform = GetPlatformID (files game) in
      [addAction ''Properties'' SLOT_OpenProperties, addAction ''Wiki'' SLOT_OpenWiki, Separator] @
      (if platform = GAMECUBE_DISC \<or> platform = WII_DISC
       then disc_entries (GetBlobType (files game)) else []) @
      (if platform = WII_WAD then wad_entries IsRunning game else []) @
      (if platform = WII_WAD \<or> platform = WII_DISC
       then [addAction ''Open Wii save folder'' SLOT_OpenSaveFolder,
             addAction ''Export Wii save (Experimental)'' SLOT_ExportWiiSave, Separator]
       else []) @
      [addAction ''Open Containing Folder'' SLOT_OpenContainingFolder,
       addAction ''Remove File'' SLOT_DeleteFile])"

text \<open>
  \<^verbatim>\<open>ShowContextMenu\<close> (lines 132-190): \<open>None\<close> when it returns at line 136, before any
  menu exists; otherwise the menu it builds and then executes at the cursor.
\<close>

definition ShowContextMenu :: "(string \<Rightarrow> GameFile) \<Rightarrow> bool \<Rightarrow> GameList \<Rightarrow> error + QMenu option" where
  "ShowContextMenu files IsRunning st =
     (case GetSelectedGame st of
        Inl e \<Rightarrow> Inl e
      | Inr game \<Rightarrow> if game = [] then Inr None else Inr (Some (build_menu files IsRunning game)))"

text \<open>
  Delivery of a signal of the widget: every handler connected for that signal runs on
  its action, in the order of connection. \<open>files\<close> is what \<^verbatim>\<open>GameFile\<close> answers when the
  signal is delivered.
\<close>

datatype Signal = EmulationStarted | EmulationStopped

fun run_handler :: "Signal \<Rightarrow> (string \<Rightarrow> GameFile) \<Rightarrow> QAction \<Rightarrow> Connection \<Rightarrow> QAction" where
  "run_handler EmulationStarted files a (Started_setEnabled b) = setEnabled b a"
| "run_handler EmulationStopped files a (Stopped_setEnabled b) = setEnabled b a"
| "run_handler EmulationStopped files a (Stopped_setEnabled_IsInstalled game) =
     setEnabled (IsInstalled (files game)) a"
| "run_handler _ _ a _ = a"

fun emit_entry :: "Signal \<Rightarrow> (string \<Rightarrow> GameFile) \<Rightarrow> MenuEntry \<Rightarrow> MenuEntry" where
  "emit_entry sig files (Action a) = Action (foldl (run_handler sig files) a (connections a))"
| "emit_entry sig files Separator = Separator"

definition emit :: "Signal \<Rightarrow> (string \<Rightarrow> GameFile) \<Rightarrow> QMenu \<Rightarrow> QMenu" where
  "emit sig files menu = map (emit_entry sig files) menu"

fun enabled_of :: "Slot \<Rightarrow> QMenu \<Rightarrow> bool option" where
  "enabled_of s [] = None"
| "enabled_of s (Separator # es) = enabled_of s es"
| "enabled_of s (Action a # es) = (if triggered a = s then Some (enabled a) else enabled_of s es)"

section \<open>Compressing and decompressing\<close>

subsection \<open>The progress dialog\<close>

text \<open>
  Of a \<^verbatim>\<open>QProgressDialog\<close> the widget uses the constructor (label, range), \<^verbatim>\<open>setValue\<close>
  and \<^verbatim>\<open>wasCanceled\<close>. The toolkit documents the rest: a new dialog shows no progress
  (its value is one below the minimum) and has \<^verbatim>\<open>autoReset\<close> on; \<^verbatim>\<open>reset\<close> rewinds the
  value and clears the cancellation; \<^verbatim>\<open>cancel\<close>, the slot behind the Abort button,
  makes \<^verbatim>\<open>wasCanceled\<close> true until the dialog is reset; a value outside the range has no
  effect on the current value (unless the range is 0 to 0); and \<^verbatim>\<open>setValue\<close> calls
  \<^verbatim>\<open>reset\<close> as soon as the value equals the maximum while \<^verbatim>\<open>autoReset\<close> is on. The
  widget never changes \<^verbatim>\<open>autoReset\<close>. The dialog lives in a store of addresses, since
  the callback receives it as an untyped pointer.
\<close>

record QProgressDialog =
  labelText :: string
  minimum :: int
  maximum :: int
  m_value :: int
  autoReset :: bool
  wasCanceled :: bool

definition new_QProgressDialog :: "string \<Rightarrow> int \<Rightarrow> int \<Rightarrow> QProgressDialog" where
  "new_QProgressDialog label lo hi =
     \<lparr>labelText = label, minimum = lo, maximum = hi, m_value = lo - 1, autoReset = True,
      wasCanceled = False\<rparr>"

definition reset :: "QProgressDialog \<Rightarrow> QProgressDialog" where
  "reset d = d\<lparr>m_value := minimum d - 1, wasCanceled := False\<rparr>"

definition setValue :: "int \<Rightarrow> QProgressDialog \<Rightarrow> QProgressDialog" where
  "setValue progress d =
     (if (progress > maximum d \<or> progress < minimum d) \<and> (maximum d \<noteq> 0 \<or> minimum d \<noteq> 0)
      then d
      else (let d' = d\<lparr>m_value := progress\<rparr>
            in if progress = maximum d \<and> autoReset d then reset d' else d'))"

definition cancel :: "QProgressDialog \<Rightarrow> QProgressDialog" where
  "cancel d = d\<lparr>wasCanceled := True\<rparr>"

type_synonym store = "nat \<rightharpoonup> QProgressDialog"

subsection \<open>The progress callback\<close>

text \<open>
  A \<^verbatim>\<open>float\<close> is the real number it denotes, or not a finite number at all (an
  infinity, a NaN). \<open>rnd\<close> is the rounding that the single-precision product
  \<^verbatim>\<open>percent * 100\<close> undergoes; it stays a parameter. \<^verbatim>\<open>setValue\<close> takes an \<^verbatim>\<open>int\<close> of 32
  bits: the conversion of the product drops the fraction, and is undefined when what is
  left does not fit, which the model reports as an error.
\<close>

datatype float = Finite real | NotFinite

definition toward_zero :: "real \<Rightarrow> int" where
  "toward_zero x = (if 0 \<le> x then \<lfloor>x\<rfloor> else \<lceil>x\<rceil>)"

definition float_to_int :: "real \<Rightarrow> error + int" where
  "float_to_int x =
     (if - 2147483648 \<le> toward_zero x \<and> toward_zero x \<le> 2147483647 then Inr (toward_zero x)
      else Inl IntConversionUndefined)"

fun percent_times_100 :: "(real \<Rightarrow> real) \<Rightarrow> float \<Rightarrow> error + int" where
  "percent_times_100 rnd (Finite percent) = float_to_int (rnd (percent * 100))"
| "percent_times_100 rnd NotFinite = Inl IntConversionUndefined"

text \<open>
  \<^verbatim>\<open>CompressCB\<close> (lines 439-447). A pointer that is neither null nor the address of a
  dialog is an error of the caller.
\<close>

definition CompressCB :: "(real \<Rightarrow> real) \<Rightarrow> string \<Rightarrow> float \<Rightarrow> nat option \<Rightarrow> store \<Rightarrow> error + (bool \<times> store)" where
  "CompressCB rnd msg percent ptr h =
     (case ptr of
        None \<Rightarrow> Inr (False, h)
      | Some a \<Rightarrow>
          (case h a of
             None \<Rightarrow> Inl InvalidPointer
           | Some progress_dialog \<Rightarrow>
               (case percent_times_100 rnd percent of
                  Inl e \<Rightarrow> Inl e
                | Inr progress \<Rightarrow>
                    (let d = setValue progress progress_dialog
                     in Inr (\<not> wasCanceled d, h(a \<mapsto> d))))))"

subsection \<open>The handler\<close>

text \<open>
  The two entry points of the codec, as the widget calls them: source path, destination
  path, for compression the platform flag and the block size, the callback and its
  argument. They answer whether the operation succeeded.
\<close>

type_synonym CompressCB_t = "string \<Rightarrow> float \<Rightarrow> nat option \<Rightarrow> store \<Rightarrow> error + (bool \<times> store)"

record DiscIO =
  DecompressBlobToFile :: "string \<Rightarrow> string \<Rightarrow> CompressCB_t \<Rightarrow> nat option \<Rightarrow> store \<Rightarrow> error + (bool \<times> store)"
  CompressFileToBlob :: "string \<Rightarrow> string \<Rightarrow> int \<Rightarrow> int \<Rightarrow> CompressCB_t \<Rightarrow> nat option \<Rightarrow> store \<Rightarrow> error + (bool \<times> store)"

text \<open>
  What \<^verbatim>\<open>CompressISO\<close> does that the user or the codec can observe, in order. The events
  keep the call the source makes: the Wii warning and the success box are run with
  \<^verbatim>\<open>exec()\<close>, which shows the dialog modally and returns when the user closes it; the
  failure message is handed to \<^verbatim>\<open>showMessage()\<close> of a temporary \<^verbatim>\<open>QErrorMessage\<close>, a call
  that returns at once, after which the temporary is destroyed.
\<close>

datatype compress_event =
    wii_warning_exec StandardButton
  | getSaveFileName string string
  | DecompressBlobToFile_call string string bool
  | CompressFileToBlob_call string string int int bool
  | QMessageBox_exec string string
  | QErrorMessage_showMessage string

text \<open>
  \<^verbatim>\<open>CompressISO\<close> (lines 217-279). \<open>answer\<close> is what the Wii warning returns when it is
  shown, \<open>dst_path\<close> what the file dialog returns. The progress dialog is a local
  object; the codec receives its address.
\<close>

definition CompressISO :: "(string \<Rightarrow> GameFile) \<Rightarrow> DiscIO \<Rightarrow> (real \<Rightarrow> real) \<Rightarrow> StandardButton \<Rightarrow> string \<Rightarrow> GameList \<Rightarrow> error + compress_event list" where
  "CompressISO files discio rnd answer dst_path st =
     (case GetSelectedGame st of
        Inl e \<Rightarrow> Inl e
      | Inr original_path \<Rightarrow>
          (let file = files original_path;
               compressed = (GetBlobType file = GCZ);
               warned = (\<not> compressed \<and> GetPlatformID file = WII_DISC);
               asked = (if warned then [wii_warning_exec answer] else [])
           in if warned \<and> answer = No then Inr asked
              else
                (let prompt = getSaveFileName
                       (if compressed then ''Select where you want to save the decompressed image''
                        else ''Select where you want to save the compressed image'') dst_path
                 in if dst_path = [] then Inr (asked @ [prompt])
                    else
                      (let progress_dialog =
                             new_QProgressDialog
                               (if compressed then ''Decompressing...'' else ''Compressing...'')
                               0 100;
                           h = [0 \<mapsto> progress_dialog];
                           flag = (if GetPlatformID file = WII_DISC then 1 else 0)
                       in case (if compressed
                                then DecompressBlobToFile discio original_path dst_path
                                       (CompressCB rnd) (Some 0) h
                                else CompressFileToBlob discio original_path dst_path flag 16384
                                       (CompressCB rnd) (Some 0) h) of
                            Inl e \<Rightarrow> Inl e
                          | Inr (good, _) \<Rightarrow>
                              Inr (asked @
                                   [prompt,
                                    (if compressed
                                     then DecompressBlobToFile_call original_path dst_path good
                                     else CompressFileToBlob_call original_path dst_path flag 16384 good),
                                    (if good
                                     then QMessageBox_exec ''Success!'' ''Successfully compressed image.''
                                     else QErrorMessage_showMessage
                                            ''Dolphin failed to complete the requested action.'')])))))"

fun is_codec_call :: "compress_event \<Rightarrow> bool" where
  "is_codec_call (DecompressBlobToFile_call _ _ _) = True"
| "is_codec_call (CompressFileToBlob_call _ _ _ _ _) = True"
| "is_codec_call _ = False"

fun codec_result :: "compress_event \<Rightarrow> bool option" where
  "codec_result (DecompressBlobToFile_call _ _ good) = Some good"
| "codec_result (CompressFileToBlob_call _ _ _ _ good) = Some good"
| "codec_result _ = None"

fun is_success_dialog :: "compress_event \<Rightarrow> bool" where
  "is_success_dialog (QMessageBox_exec _ _) = True"
| "is_success_dialog _ = False"

fun is_failure_dialog :: "compress_event \<Rightarrow> bool" where
  "is_failure_dialog (QErrorMessage_showMessage _) = True"
| "is_failure_dialog _ = False"

text \<open>The events that run a dialog modally: the calls of \<^verbatim>\<open>exec()\<close>.\<close>

fun is_exec :: "compress_event \<Rightarrow> bool" where
  "is_exec (wii_warning_exec _) = True"
| "is_exec (QMessageBox_exec _ _) = True"
| "is_exec _ = False"

definition is_modal_result_dialog :: "compress_event \<Rightarrow> bool" where
  "is_modal_result_dialog e = ((is_success_dialog e \<or> is_failure_dialog e) \<and> is_exec e)"

subsection \<open>The codec\<close>

text \<open>
  Modelled from the spec: \<^verbatim>\<open>DiscIO::CompressFileToBlob\<close> and
  \<^verbatim>\<open>DiscIO::DecompressBlobToFile\<close> are not part of this file. The spec has the codec
  invoke the progress callback periodically with the fraction done, the callback's
  return value being the cancellation signal: \<open>false\<close> aborts the operation, which then
  reports failure. A run is the list of its progress reports, interleaved with the
  moments at which the user presses Abort in the progress dialog, and the result the
  codec reaches when nothing stops it. A press of Abort sets the dialog's cancellation
  flag; the next report reads it.
\<close>

datatype codec_step = Report float | UserCancel

fun press_abort :: "nat option \<Rightarrow> store \<Rightarrow> store" where
  "press_abort None h = h"
| "press_abort (Some a) h = (case h a of None \<Rightarrow> h | Some d \<Rightarrow> h(a \<mapsto> cancel d))"

fun codec_run :: "codec_step list \<Rightarrow> bool \<Rightarrow> CompressCB_t \<Rightarrow> nat option \<Rightarrow> store \<Rightarrow> error + (bool \<times> store)" where
  "codec_run [] outcome callback arg h = Inr (outcome, h)"
| "codec_run (Report percent # steps) outcome callback arg h =
     (case callback [] percent arg h of
        Inl e \<Rightarrow> Inl e
      | Inr (continue, h') \<Rightarrow>
          if continue then codec_run steps outcome callback arg h' else Inr (False, h'))"
| "codec_run (UserCancel # steps) outcome callback arg h =
     codec_run steps outcome callback arg (press_abort arg h)"

definition spec_DiscIO :: "codec_step list \<Rightarrow> bool \<Rightarrow> DiscIO" where
  "spec_DiscIO steps outcome =
     \<lparr>DecompressBlobToFile = (\<lambda>src dst. codec_run steps outcome),
      CompressFileToBlob = (\<lambda>src dst flag block_size. codec_run steps outcome)\<rparr>"

text \<open>
  What the properties of the callback assume of its inputs. The rounding of the
  product is that of IEEE single precision to nearest, of which three facts are used:
  it is monotone, it leaves 0 and 100 as they are, and between 0 and 100 it moves a
  number \<open>x\<close> by at most \<open>x / 2 ^ 24 + 1 / 2 ^ 150\<close>. The dialog is the one
  \<^verbatim>\<open>CompressISO\<close> creates: range 0 to 100, \<^verbatim>\<open>autoReset\<close> on. The codec reports fractions
  between 0 and 1.
\<close>

definition rounding_error :: "real \<Rightarrow> real" where
  "rounding_error x = x / 2 ^ 24 + 1 / 2 ^ 150"

definition single_rounding :: "(real \<Rightarrow> real) \<Rightarrow> bool" where
  "single_rounding rnd =
     (mono rnd \<and> rnd 0 = 0 \<and> rnd 100 = 100 \<and>
      (\<forall>x. 0 \<le> x \<and> x \<le> 100 \<longrightarrow> \<bar>rnd x - x\<bar> \<le> rounding_error x))"

definition progress_0_100 :: "QProgressDialog \<Rightarrow> bool" where
  "progress_0_100 d = (minimum d = 0 \<and> maximum d = 100 \<and> autoReset d)"

fun fraction :: "codec_step \<Rightarrow> bool" where
  "fraction (Report (Finite x)) = (0 \<le> x \<and> x \<le> 1)"
| "fraction (Report NotFinite) = False"
| "fraction UserCancel = True"

section \<open>Deleting a file\<close>

text \<open>
  What \<^verbatim>\<open>DeleteFile\<close> does, in order. \<open>File_Delete k path\<close> is what the \<open>k\<close>-th call of
  \<^verbatim>\<open>File::Delete\<close> of this invocation returns, \<open>error_exec k\<close> the button that closes the
  error dialog shown after the \<open>k\<close>-th call failed; both count from 0.
\<close>

datatype delete_event =
    confirm_exec StandardButton
  | File_Delete_call string bool
  | RemoveGame_call string
  | error_dialog_exec StandardButton

text \<open>
  The loop of lines 346-367, entered for the \<open>k\<close>-th attempt with the catalogue \<open>m\<close> and
  the events so far. It need not end: \<open>None\<close> is the run in which every attempt fails
  and the user never aborts.
\<close>

partial_function (option) DeleteFile_loop ::
  "(nat \<Rightarrow> string \<Rightarrow> bool) \<Rightarrow> (nat \<Rightarrow> StandardButton) \<Rightarrow> string \<Rightarrow> nat \<Rightarrow> GameListModel \<Rightarrow>
   delete_event list \<Rightarrow> (GameListModel \<times> delete_event list) option" where
  "DeleteFile_loop File_Delete error_exec game k m evs =
     (let deletion_successful = File_Delete k game in
      if deletion_successful
      then Some (RemoveGame m game, evs @ [File_Delete_call game True, RemoveGame_call game])
      else if error_exec k = Abort
           then Some (m, evs @ [File_Delete_call game False, error_dialog_exec (error_exec k)])
           else DeleteFile_loop File_Delete error_exec game (k + 1) m
                  (evs @ [File_Delete_call game False, error_dialog_exec (error_exec k)]))"

text \<open>
  \<^verbatim>\<open>DeleteFile\<close> (lines 332-369): the catalogue it leaves and its events. \<open>confirm\<close> is the
  button that closes the confirmation dialog.
\<close>

definition DeleteFile ::
  "StandardButton \<Rightarrow> (nat \<Rightarrow> string \<Rightarrow> bool) \<Rightarrow> (nat \<Rightarrow> StandardButton) \<Rightarrow> GameList \<Rightarrow>
   (error + GameListModel \<times> delete_event list) option" where
  "DeleteFile confirm File_Delete error_exec st =
     (case GetSelectedGame st of
        Inl e \<Rightarrow> Some (Inl e)
      | Inr game \<Rightarrow>
          if confirm = Yes
          then map_option Inr
                 (DeleteFile_loop File_Delete error_exec game 0 (m_model st) [confirm_exec confirm])
          else Some (Inr (m_model st, [confirm_exec confirm])))"

fun is_delete_attempt :: "delete_event \<Rightarrow> bool" where
  "is_delete_attempt (File_Delete_call _ _) = True"
| "is_delete_attempt _ = False"

text \<open>
  The events of \<open>n\<close> failed attempts, each answered with Retry.
\<close>

definition failed_attempts :: "string \<Rightarrow> nat \<Rightarrow> delete_event list" where
  "failed_attempts game n =
     concat (replicate n [File_Delete_call game False, error_dialog_exec Retry])"

section \<open>Properties of the view choice\<close>

text \<open>
  C1. Whatever the catalogue and the stored preference, the view shown after
  \<^verbatim>\<open>ConsiderViewChange\<close> is the empty placeholder when the catalogue has no row, whatever
  the preference; with at least one row it is the table exactly when the preference is
  the table, and the icon list otherwise. Nothing else of the widget changes.
\<close>

theorem ConsiderViewChange_policy:
  "(rowCount (m_model st) = 0 \<longrightarrow> currentWidget (ConsiderViewChange st) = W_empty) \<and>
   (rowCount (m_model st) \<noteq> 0 \<longrightarrow>
      (currentWidget (ConsiderViewChange st) = W_table \<longleftrightarrow> m_prefer_table st) \<and>
      (currentWidget (ConsiderViewChange st) = W_list \<longleftrightarrow> \<not> m_prefer_table st)) \<and>
   ConsiderViewChange st = st\<lparr>currentWidget := currentWidget (ConsiderViewChange st)\<rparr>"
  by (simp add: ConsiderViewChange_def rowCount_def)

theorem ConsiderViewChange_policy_witness:
  "currentWidget (ConsiderViewChange
      \<lparr>m_model = [], m_table_proxy = [], m_list_proxy = [],
       m_table = \<lparr>selectedIndexes = []\<rparr>, m_list = \<lparr>selectedIndexes = []\<rparr>,
       m_prefer_table = True, currentWidget = W_table\<rparr>) = W_empty \<and>
   currentWidget (ConsiderViewChange
      \<lparr>m_model = [''/games/a.iso''], m_table_proxy = [0], m_list_proxy = [0],
       m_table = \<lparr>selectedIndexes = []\<rparr>, m_list = \<lparr>selectedIndexes = []\<rparr>,
       m_prefer_table = False, currentWidget = W_empty\<rparr>) = W_list"
  using ConsiderViewChange_policy
          [of "\<lparr>m_model = [], m_table_proxy = [], m_list_proxy = [],
               m_table = \<lparr>selectedIndexes = []\<rparr>, m_list = \<lparr>selectedIndexes = []\<rparr>,
               m_prefer_table = True, currentWidget = W_table\<rparr>"]
        ConsiderViewChange_policy
          [of "\<lparr>m_model = [''/games/a.iso''], m_table_proxy = [0], m_list_proxy = [0],
               m_table = \<lparr>selectedIndexes = []\<rparr>, m_list = \<lparr>selectedIndexes = []\<rparr>,
               m_prefer_table = False, currentWidget = W_empty\<rparr>"]
  by (simp add: rowCount_def)


section \<open>Properties of selection resolution\<close>

lemma GetPath_in_range: "r < length m \<Longrightarrow> GetPath m (int r) = Inr (m ! r)"
  by (simp add: GetPath_def rowCount_def)

lemma mapToSource_in_range:
  "0 \<le> row i \<Longrightarrow> row i < int (length proxy) \<Longrightarrow>
   row (mapToSource proxy i) = int (proxy ! nat (row i))"
  by (simp add: mapToSource_def)

lemma resolve_view:
  assumes "proxy_ok m proxy" and "selection_ok proxy view"
  shows "(if hasSelection view
          then (case selectedIndexes view of
                  [] \<Rightarrow> Inl IndexOutOfRange
                | i # _ \<Rightarrow> GetPath m (row (mapToSource proxy i)))
          else Inr []) = Inr (first_selected m proxy view)"
proof (cases "selectedIndexes view")
  case Nil
  then show ?thesis by (simp add: hasSelection_def first_selected_def)
next
  case (Cons i rest)
  with assms(2) have lo: "0 \<le> row i" and hi: "row i < int (length proxy)"
    by (simp_all add: selection_ok_def)
  from hi lo have "nat (row i) < length proxy" by linarith
  with assms(1) have "proxy ! nat (row i) < length m"
    by (simp add: proxy_ok_def list_all_length)
  then have "GetPath m (row (mapToSource proxy i)) = Inr (m ! (proxy ! nat (row i)))"
    by (simp add: mapToSource_in_range [OF lo hi] GetPath_in_range)
  with Cons show ?thesis by (simp add: hasSelection_def first_selected_def)
qed

lemma empty_view_no_selection:
  assumes "GameList_inv st" and "currentWidget st = W_empty"
  shows "selectedIndexes (m_list st) = []"
proof -
  from assms have "m_model st = []"
    by (auto simp: GameList_inv_def ConsiderViewChange_def rowCount_def split: if_splits)
  with assms(1) have "m_list_proxy st = []"
    by (cases "m_list_proxy st") (simp_all add: GameList_inv_def proxy_ok_def)
  with assms(1) show ?thesis
    by (cases "selectedIndexes (m_list st)") (auto simp: GameList_inv_def selection_ok_def)
qed

text \<open>
  C5. In every state of the widget that the toolkit and the constructor maintain,
  \<^verbatim>\<open>GetSelectedGame\<close> is selection resolution as the specification words it: empty when
  the active view has no selected row, and otherwise the path of the catalogue row that
  the active view's proxy shows at the first selected row.
\<close>

theorem GetSelectedGame_resolves:
  assumes "GameList_inv st"
  shows "GetSelectedGame st = Inr (spec_getSelectedGame st)"
proof (cases "currentWidget st")
  case W_table
  with assms resolve_view [of "m_model st" "m_table_proxy st" "m_table st"] show ?thesis
    by (simp add: GetSelectedGame_def spec_getSelectedGame_def GameList_inv_def)
next
  case W_list
  with assms resolve_view [of "m_model st" "m_list_proxy st" "m_list st"] show ?thesis
    by (simp add: GetSelectedGame_def spec_getSelectedGame_def GameList_inv_def)
next
  case W_empty
  with assms have "selectedIndexes (m_list st) = []" by (rule empty_view_no_selection)
  with W_empty show ?thesis
    by (simp add: GetSelectedGame_def spec_getSelectedGame_def hasSelection_def)
qed

theorem GetSelectedGame_resolves_witness:
  "GetSelectedGame
     \<lparr>m_model = [''/games/a.iso'', ''/games/b.gcz'', ''/games/c.wad''],
      m_table_proxy = [2, 0, 1], m_list_proxy = [0, 1, 2],
      m_table = \<lparr>selectedIndexes = [\<lparr>row = 0, column = 0\<rparr>, \<lparr>row = 0, column = 1\<rparr>]\<rparr>,
      m_list = \<lparr>selectedIndexes = []\<rparr>,
      m_prefer_table = True, currentWidget = W_table\<rparr> = Inr ''/games/c.wad''"
  using GetSelectedGame_resolves
          [of "\<lparr>m_model = [''/games/a.iso'', ''/games/b.gcz'', ''/games/c.wad''],
               m_table_proxy = [2, 0, 1], m_list_proxy = [0, 1, 2],
               m_table = \<lparr>selectedIndexes = [\<lparr>row = 0, column = 0\<rparr>, \<lparr>row = 0, column = 1\<rparr>]\<rparr>,
               m_list = \<lparr>selectedIndexes = []\<rparr>,
               m_prefer_table = True, currentWidget = W_table\<rparr>"]
  by (simp add: GameList_inv_def proxy_ok_def selection_ok_def ConsiderViewChange_def
        rowCount_def spec_getSelectedGame_def first_selected_def)

text \<open>
  Without the invariant the two differ: were the placeholder current while the icon list
  still held a selection, the code would answer from the icon list.
\<close>

lemma GetSelectedGame_reads_list_behind_placeholder:
  "GetSelectedGame
     \<lparr>m_model = [''/games/a.iso''], m_table_proxy = [0], m_list_proxy = [0],
      m_table = \<lparr>selectedIndexes = []\<rparr>,
      m_list = \<lparr>selectedIndexes = [\<lparr>row = 0, column = 0\<rparr>]\<rparr>,
      m_prefer_table = False, currentWidget = W_empty\<rparr> = Inr ''/games/a.iso''"
  by (simp add: GetSelectedGame_def hasSelection_def mapToSource_def GetPath_def rowCount_def)

text \<open>
  The invariant is what the widget's own operations keep: \<^verbatim>\<open>ConsiderViewChange\<close> settles
  the current widget for the present catalogue, and a change of the preference keeps
  the invariant.
\<close>

lemma ConsiderViewChange_settles:
  "currentWidget (ConsiderViewChange (ConsiderViewChange st)) = currentWidget (ConsiderViewChange st)"
  by (simp add: ConsiderViewChange_def)

lemma ConsiderViewChange_inv:
  assumes "proxy_ok (m_model st) (m_table_proxy st)" "proxy_ok (m_model st) (m_list_proxy st)"
    "selection_ok (m_table_proxy st) (m_table st)" "selection_ok (m_list_proxy st) (m_list st)"
  shows "GameList_inv (ConsiderViewChange st)"
  using assms by (simp add: GameList_inv_def ConsiderViewChange_def)

lemma SetPreferredView_inv:
  "GameList_inv st \<Longrightarrow> GameList_inv (SetPreferredView table st)"
  by (simp add: GameList_inv_def SetPreferredView_def ConsiderViewChange_def)

text \<open>
  A game resolved from a selection is an entry of the catalogue.
\<close>

lemma first_selected_in_catalogue:
  assumes "proxy_ok m proxy" and "selection_ok proxy view" and "selectedIndexes view \<noteq> []"
  shows "first_selected m proxy view \<in> set m"
proof (cases "selectedIndexes view")
  case Nil
  with assms(3) show ?thesis by simp
next
  case (Cons i rest)
  with assms(2) have "0 \<le> row i" "row i < int (length proxy)"
    by (simp_all add: selection_ok_def)
  then have "nat (row i) < length proxy" by linarith
  with assms(1) have "proxy ! nat (row i) < length m"
    by (simp add: proxy_ok_def list_all_length)
  with Cons show ?thesis by (simp add: first_selected_def)
qed

lemma selected_game_in_catalogue:
  assumes "GameList_inv st" and "GetSelectedGame st = Inr game" and "game \<noteq> []"
  shows "game \<in> set (m_model st)"
proof (cases "currentWidget st = W_table")
  case True
  from assms(1) have ok: "proxy_ok (m_model st) (m_table_proxy st)"
    "selection_ok (m_table_proxy st) (m_table st)" by (simp_all add: GameList_inv_def)
  from assms(2) True resolve_view [OF ok]
  have g: "game = first_selected (m_model st) (m_table_proxy st) (m_table st)"
    by (simp add: GetSelectedGame_def)
  with assms(3) have "selectedIndexes (m_table st) \<noteq> []"
    by (auto simp: first_selected_def)
  from first_selected_in_catalogue [OF ok this] g show ?thesis by simp
next
  case False
  from assms(1) have ok: "proxy_ok (m_model st) (m_list_proxy st)"
    "selection_ok (m_list_proxy st) (m_list st)" by (simp_all add: GameList_inv_def)
  from assms(2) False resolve_view [OF ok]
  have g: "game = first_selected (m_model st) (m_list_proxy st) (m_list st)"
    by (simp add: GetSelectedGame_def)
  with assms(3) have "selectedIndexes (m_list st) \<noteq> []"
    by (auto simp: first_selected_def)
  from first_selected_in_catalogue [OF ok this] g show ?thesis by simp
qed

section \<open>Properties of the context menu\<close>

text \<open>
  C9. A request for the context menu while \<^verbatim>\<open>GetSelectedGame\<close> answers the empty string
  returns before any menu is built: no menu, nothing executed.
\<close>

theorem ShowContextMenu_without_selection:
  "GetSelectedGame st = Inr [] \<Longrightarrow> ShowContextMenu files IsRunning st = Inr None"
  by (simp add: ShowContextMenu_def)

theorem ShowContextMenu_without_selection_witness:
  "ShowContextMenu (\<lambda>_. \<lparr>GetPlatformID = WII_DISC, GetBlobType = PLAIN, IsInstalled = False,
                          GetGameID = ''RSPE01''\<rparr>) False
     \<lparr>m_model = [''/games/a.iso''], m_table_proxy = [0], m_list_proxy = [0],
      m_table = \<lparr>selectedIndexes = []\<rparr>, m_list = \<lparr>selectedIndexes = []\<rparr>,
      m_prefer_table = True, currentWidget = W_table\<rparr> = Inr None"
  using ShowContextMenu_without_selection
          [of "\<lparr>m_model = [''/games/a.iso''], m_table_proxy = [0], m_list_proxy = [0],
               m_table = \<lparr>selectedIndexes = []\<rparr>, m_list = \<lparr>selectedIndexes = []\<rparr>,
               m_prefer_table = True, currentWidget = W_table\<rparr>"]
  by (simp add: GetSelectedGame_def hasSelection_def)

lemma ShowContextMenu_with_selection:
  "GetSelectedGame st = Inr game \<Longrightarrow> game \<noteq> [] \<Longrightarrow>
   ShowContextMenu files IsRunning st = Inr (Some (build_menu files IsRunning game))"
  by (simp add: ShowContextMenu_def)


subsection \<open>Disc images\<close>

lemma enabled_of_append:
  "enabled_of s (xs @ ys) = (case enabled_of s xs of None \<Rightarrow> enabled_of s ys | Some b \<Rightarrow> Some b)"
  by (induction s xs rule: enabled_of.induct) simp_all

lemma build_menu_disc:
  assumes "GetPlatformID (files game) = GAMECUBE_DISC \<or> GetPlatformID (files game) = WII_DISC"
  shows "build_menu files IsRunning game =
           [addAction ''Properties'' SLOT_OpenProperties, addAction ''Wiki'' SLOT_OpenWiki,
            Separator] @
           disc_entries (GetBlobType (files game)) @
           (if GetPlatformID (files game) = WII_DISC
            then [addAction ''Open Wii save folder'' SLOT_OpenSaveFolder,
                  addAction ''Export Wii save (Experimental)'' SLOT_ExportWiiSave, Separator]
            else []) @
           [addAction ''Open Containing Folder'' SLOT_OpenContainingFolder,
            addAction ''Remove File'' SLOT_DeleteFile]"
  using assms by (auto simp: build_menu_def Let_def)

text \<open>
  C2, as the code has it. For a selected game whose platform is a disc image the menu
  holds, after Properties, Wiki and a separator: the Default ISO entry; then the
  Decompress entry when the blob type is \<^verbatim>\<open>GCZ\<close>, the Compress entry when it is \<^verbatim>\<open>PLAIN\<close>
  and no entry for any other blob type; then a separator. Neither entry occurs
  elsewhere in the menu.
\<close>

theorem disc_menu_entries:
  assumes "GetPlatformID (files game) = GAMECUBE_DISC \<or> GetPlatformID (files game) = WII_DISC"
  shows "\<exists>rest.
           build_menu files IsRunning game =
             [addAction ''Properties'' SLOT_OpenProperties, addAction ''Wiki'' SLOT_OpenWiki,
              Separator, addAction ''Default ISO'' SLOT_SetDefaultISO] @
             (if GetBlobType (files game) = GCZ
              then [addAction ''Decompress ISO'' SLOT_DecompressISO]
              else if GetBlobType (files game) = PLAIN
                   then [addAction ''Compress ISO'' SLOT_CompressISO]
                   else []) @
             Separator # rest \<and>
           enabled_of SLOT_DecompressISO rest = None \<and>
           enabled_of SLOT_CompressISO rest = None"
proof -
  let ?rest = "(if GetPlatformID (files game) = WII_DISC
                then [addAction ''Open Wii save folder'' SLOT_OpenSaveFolder,
                      addAction ''Export Wii save (Experimental)'' SLOT_ExportWiiSave, Separator]
                else []) @
               [addAction ''Open Containing Folder'' SLOT_OpenContainingFolder,
                addAction ''Remove File'' SLOT_DeleteFile]"
  have "enabled_of SLOT_DecompressISO ?rest = None" "enabled_of SLOT_CompressISO ?rest = None"
    by (simp_all add: addAction_def new_QAction_def)
  moreover have "build_menu files IsRunning game =
             [addAction ''Properties'' SLOT_OpenProperties, addAction ''Wiki'' SLOT_OpenWiki,
              Separator, addAction ''Default ISO'' SLOT_SetDefaultISO] @
             (if GetBlobType (files game) = GCZ
              then [addAction ''Decompress ISO'' SLOT_DecompressISO]
              else if GetBlobType (files game) = PLAIN
                   then [addAction ''Compress ISO'' SLOT_CompressISO]
                   else []) @
             Separator # ?rest"
    using assms by (simp add: build_menu_disc disc_entries_def)
  ultimately show ?thesis by blast
qed

theorem disc_menu_entries_witness:
  "\<exists>rest.
     build_menu (\<lambda>_. \<lparr>GetPlatformID = GAMECUBE_DISC, GetBlobType = GCZ, IsInstalled = False,
                        GetGameID = ''GALE01''\<rparr>) False ''/games/melee.gcz'' =
       [addAction ''Properties'' SLOT_OpenProperties, addAction ''Wiki'' SLOT_OpenWiki,
        Separator, addAction ''Default ISO'' SLOT_SetDefaultISO,
        addAction ''Decompress ISO'' SLOT_DecompressISO, Separator] @ rest \<and>
     enabled_of SLOT_DecompressISO rest = None \<and>
     enabled_of SLOT_CompressISO rest = None"
  using disc_menu_entries
          [of "\<lambda>_. \<lparr>GetPlatformID = GAMECUBE_DISC, GetBlobType = GCZ, IsInstalled = False,
                      GetGameID = ''GALE01''\<rparr>" "''/games/melee.gcz''" False]
  by simp

text \<open>
  C2 as stated fails: a Wii disc image kept in the WBFS format is a disc image, and its
  menu holds neither the Decompress nor the Compress entry between the Default ISO
  entry and the separator, nor anywhere else.
\<close>

theorem disc_menu_wbfs_counterexample:
  "GetPlatformID \<lparr>GetPlatformID = WII_DISC, GetBlobType = WBFS, IsInstalled = False,
                  GetGameID = ''RSPE01''\<rparr> = WII_DISC \<and>
   build_menu (\<lambda>_. \<lparr>GetPlatformID = WII_DISC, GetBlobType = WBFS, IsInstalled = False,
                      GetGameID = ''RSPE01''\<rparr>) False ''/games/sports.wbfs'' =
     [addAction ''Properties'' SLOT_OpenProperties, addAction ''Wiki'' SLOT_OpenWiki, Separator,
      addAction ''Default ISO'' SLOT_SetDefaultISO, Separator,
      addAction ''Open Wii save folder'' SLOT_OpenSaveFolder,
      addAction ''Export Wii save (Experimental)'' SLOT_ExportWiiSave, Separator,
      addAction ''Open Containing Folder'' SLOT_OpenContainingFolder,
      addAction ''Remove File'' SLOT_DeleteFile] \<and>
   enabled_of SLOT_DecompressISO
     (build_menu (\<lambda>_. \<lparr>GetPlatformID = WII_DISC, GetBlobType = WBFS, IsInstalled = False,
                        GetGameID = ''RSPE01''\<rparr>) False ''/games/sports.wbfs'') = None \<and>
   enabled_of SLOT_CompressISO
     (build_menu (\<lambda>_. \<lparr>GetPlatformID = WII_DISC, GetBlobType = WBFS, IsInstalled = False,
                        GetGameID = ''RSPE01''\<rparr>) False ''/games/sports.wbfs'') = None"
  by (simp add: build_menu_def disc_entries_def addAction_def new_QAction_def)

subsection \<open>Installable packages\<close>

lemma build_menu_wad:
  assumes "GetPlatformID (files game) = WII_WAD"
  shows "build_menu files IsRunning game =
           [addAction ''Properties'' SLOT_OpenProperties, addAction ''Wiki'' SLOT_OpenWiki,
            Separator] @
           wad_entries IsRunning game @
           [addAction ''Open Wii save folder'' SLOT_OpenSaveFolder,
            addAction ''Export Wii save (Experimental)'' SLOT_ExportWiiSave, Separator,
            addAction ''Open Containing Folder'' SLOT_OpenContainingFolder,
            addAction ''Remove File'' SLOT_DeleteFile]"
  using assms by (simp add: build_menu_def)

text \<open>
  What the code does for a WAD. When the menu is built both entries are enabled exactly
  when the core is not running; a start of emulation disables both; a stop enables
  Install and sets Uninstall to whether the package is installed at that moment.
\<close>

lemma wad_entries_when_built:
  assumes "GetPlatformID (files game) = WII_WAD"
  shows "enabled_of SLOT_InstallWAD (build_menu files IsRunning game) = Some (\<not> IsRunning)"
    and "enabled_of SLOT_UninstallWAD (build_menu files IsRunning game) = Some (\<not> IsRunning)"
  using assms by (simp_all add: build_menu_wad wad_entries_def addAction_def new_QAction_def
        setEnabled_def connect_def)

lemma wad_entries_after_EmulationStarted:
  assumes "GetPlatformID (files game) = WII_WAD"
  shows "enabled_of SLOT_InstallWAD
           (emit EmulationStarted files' (build_menu files IsRunning game)) = Some False"
    and "enabled_of SLOT_UninstallWAD
           (emit EmulationStarted files' (build_menu files IsRunning game)) = Some False"
  using assms by (simp_all add: build_menu_wad wad_entries_def addAction_def new_QAction_def
        setEnabled_def connect_def emit_def)

lemma wad_entries_after_EmulationStopped:
  assumes "GetPlatformID (files game) = WII_WAD"
  shows "enabled_of SLOT_InstallWAD
           (emit EmulationStopped files' (build_menu files IsRunning game)) = Some True"
    and "enabled_of SLOT_UninstallWAD
           (emit EmulationStopped files' (build_menu files IsRunning game)) =
         Some (IsInstalled (files' game))"
  using assms by (simp_all add: build_menu_wad wad_entries_def addAction_def new_QAction_def
        setEnabled_def connect_def emit_def)

text \<open>
  C3 at the input where the code departs from it: a WAD that is not installed, its menu
  requested while the core is not running. The Uninstall entry of the menu just built
  is enabled, although the package is not installed; only a later stop of emulation
  would consult \<^verbatim>\<open>IsInstalled\<close> and disable it.
\<close>

theorem wad_uninstall_enabled_though_not_installed:
  "IsInstalled \<lparr>GetPlatformID = WII_WAD, GetBlobType = PLAIN, IsInstalled = False,
                GetGameID = ''HAXX''\<rparr> = False \<and>
   enabled_of SLOT_UninstallWAD
     (build_menu (\<lambda>_. \<lparr>GetPlatformID = WII_WAD, GetBlobType = PLAIN, IsInstalled = False,
                        GetGameID = ''HAXX''\<rparr>) False ''/games/channel.wad'') = Some True \<and>
   enabled_of SLOT_UninstallWAD
     (emit EmulationStopped
        (\<lambda>_. \<lparr>GetPlatformID = WII_WAD, GetBlobType = PLAIN, IsInstalled = False,
               GetGameID = ''HAXX''\<rparr>)
        (build_menu (\<lambda>_. \<lparr>GetPlatformID = WII_WAD, GetBlobType = PLAIN, IsInstalled = False,
                           GetGameID = ''HAXX''\<rparr>) False ''/games/channel.wad'')) = Some False"
  by (simp add: build_menu_def wad_entries_def addAction_def new_QAction_def
        setEnabled_def connect_def emit_def)


section \<open>Properties of compression\<close>

subsection \<open>The handler\<close>

text \<open>
  Past the Wii warning and the file dialog, \<^verbatim>\<open>CompressISO\<close> calls the codec once, with
  the callback and the address of its progress dialog, and ends with one message chosen
  by what the codec returns: the success box on true, the error message on false.
\<close>

lemma CompressISO_runs_codec:
  assumes sel: "GetSelectedGame st = Inr p" and dst: "dst_path \<noteq> []"
    and go: "\<not> (GetBlobType (files p) \<noteq> GCZ \<and> GetPlatformID (files p) = WII_DISC \<and> answer = No)"
    and codec:
      "(if GetBlobType (files p) = GCZ
        then DecompressBlobToFile discio p dst_path (CompressCB rnd) (Some 0)
               [0 \<mapsto> new_QProgressDialog ''Decompressing...'' 0 100]
        else CompressFileToBlob discio p dst_path
               (if GetPlatformID (files p) = WII_DISC then 1 else 0) 16384 (CompressCB rnd) (Some 0)
               [0 \<mapsto> new_QProgressDialog ''Compressing...'' 0 100]) = Inr (good, h')"
  shows "\<exists>before call.
           CompressISO files discio rnd answer dst_path st =
             Inr (before @
                  [call,
                   if good then QMessageBox_exec ''Success!'' ''Successfully compressed image.''
                   else QErrorMessage_showMessage
                          ''Dolphin failed to complete the requested action.'']) \<and>
           is_codec_call call \<and> codec_result call = Some good \<and>
           list_all (\<lambda>e. \<not> is_codec_call e \<and> \<not> is_success_dialog e \<and> \<not> is_failure_dialog e)
             before"
proof (cases "GetBlobType (files p) = GCZ")
  case True
  with codec have c: "DecompressBlobToFile discio p dst_path (CompressCB rnd) (Some 0)
               [0 \<mapsto> new_QProgressDialog ''Decompressing...'' 0 100] = Inr (good, h')" by simp
  have "CompressISO files discio rnd answer dst_path st =
          Inr ([getSaveFileName ''Select where you want to save the decompressed image'' dst_path] @
               [DecompressBlobToFile_call p dst_path good,
                if good then QMessageBox_exec ''Success!'' ''Successfully compressed image.''
                else QErrorMessage_showMessage
                       ''Dolphin failed to complete the requested action.''])"
    using sel dst True by (simp add: CompressISO_def c)
  then show ?thesis
    by (intro exI [of _ "[getSaveFileName ''Select where you want to save the decompressed image'' dst_path]"]
              exI [of _ "DecompressBlobToFile_call p dst_path good"]) simp
next
  case False
  let ?flag = "if GetPlatformID (files p) = WII_DISC then 1 else 0 :: int"
  let ?asked = "if GetPlatformID (files p) = WII_DISC then [wii_warning_exec answer] else []"
  from False codec have c: "CompressFileToBlob discio p dst_path ?flag 16384 (CompressCB rnd) (Some 0)
               [0 \<mapsto> new_QProgressDialog ''Compressing...'' 0 100] = Inr (good, h')" by simp
  have "CompressISO files discio rnd answer dst_path st =
          Inr ((?asked @
                [getSaveFileName ''Select where you want to save the compressed image'' dst_path]) @
               [CompressFileToBlob_call p dst_path ?flag 16384 good,
                if good then QMessageBox_exec ''Success!'' ''Successfully compressed image.''
                else QErrorMessage_showMessage
                       ''Dolphin failed to complete the requested action.''])"
    using sel dst False go c
    by (cases "GetPlatformID (files p) = WII_DISC") (simp_all add: CompressISO_def)
  then show ?thesis
    by (intro exI [of _ "?asked @ [getSaveFileName ''Select where you want to save the compressed image'' dst_path]"]
              exI [of _ "CompressFileToBlob_call p dst_path ?flag 16384 good"]) simp
qed

text \<open>
  C6 at the input where the code departs from it: a compressed GameCube image, a
  destination chosen, and a codec that fails. The handler's last act is
  \<^verbatim>\<open>QErrorMessage(this).showMessage(...)\<close>: no result dialog is run modally, where the
  same handler runs the success box with \<^verbatim>\<open>exec()\<close> when the codec succeeds.
\<close>

theorem CompressISO_failure_not_modal:
  "CompressISO
     (\<lambda>_. \<lparr>GetPlatformID = GAMECUBE_DISC, GetBlobType = GCZ, IsInstalled = False,
            GetGameID = ''GALE01''\<rparr>)
     \<lparr>DecompressBlobToFile = (\<lambda>src dst cb arg h. Inr (False, h)),
      CompressFileToBlob = (\<lambda>src dst flag bs cb arg h. Inr (False, h))\<rparr>
     (\<lambda>x. x) Yes ''/out/melee.gcm''
     \<lparr>m_model = [''/games/melee.gcz''], m_table_proxy = [0], m_list_proxy = [0],
      m_table = \<lparr>selectedIndexes = [\<lparr>row = 0, column = 0\<rparr>]\<rparr>,
      m_list = \<lparr>selectedIndexes = []\<rparr>,
      m_prefer_table = True, currentWidget = W_table\<rparr> =
     Inr [getSaveFileName ''Select where you want to save the decompressed image''
            ''/out/melee.gcm'',
          DecompressBlobToFile_call ''/games/melee.gcz'' ''/out/melee.gcm'' False,
          QErrorMessage_showMessage ''Dolphin failed to complete the requested action.''] \<and>
   filter is_modal_result_dialog
     [getSaveFileName ''Select where you want to save the decompressed image''
        ''/out/melee.gcm'',
      DecompressBlobToFile_call ''/games/melee.gcz'' ''/out/melee.gcm'' False,
      QErrorMessage_showMessage ''Dolphin failed to complete the requested action.''] = [] \<and>
   CompressISO
     (\<lambda>_. \<lparr>GetPlatformID = GAMECUBE_DISC, GetBlobType = GCZ, IsInstalled = False,
            GetGameID = ''GALE01''\<rparr>)
     \<lparr>DecompressBlobToFile = (\<lambda>src dst cb arg h. Inr (True, h)),
      CompressFileToBlob = (\<lambda>src dst flag bs cb arg h. Inr (True, h))\<rparr>
     (\<lambda>x. x) Yes ''/out/melee.gcm''
     \<lparr>m_model = [''/games/melee.gcz''], m_table_proxy = [0], m_list_proxy = [0],
      m_table = \<lparr>selectedIndexes = [\<lparr>row = 0, column = 0\<rparr>]\<rparr>,
      m_list = \<lparr>selectedIndexes = []\<rparr>,
      m_prefer_table = True, currentWidget = W_table\<rparr> =
     Inr [getSaveFileName ''Select where you want to save the decompressed image''
            ''/out/melee.gcm'',
          DecompressBlobToFile_call ''/games/melee.gcz'' ''/out/melee.gcm'' True,
          QMessageBox_exec ''Success!'' ''Successfully compressed image.''] \<and>
   filter is_modal_result_dialog
     [getSaveFileName ''Select where you want to save the decompressed image''
        ''/out/melee.gcm'',
      DecompressBlobToFile_call ''/games/melee.gcz'' ''/out/melee.gcm'' True,
      QMessageBox_exec ''Success!'' ''Successfully compressed image.''] =
     [QMessageBox_exec ''Success!'' ''Successfully compressed image.'']"
  by (simp add: CompressISO_def GetSelectedGame_def hasSelection_def mapToSource_def GetPath_def
        rowCount_def is_modal_result_dialog_def)

text \<open>
  C7. When the file dialog returns the empty path, \<^verbatim>\<open>CompressISO\<close> returns: it has not
  called the codec and has shown neither the success box nor the error message. The
  handler itself ends without error whenever the selection resolves.
\<close>

theorem CompressISO_empty_destination:
  assumes "GetSelectedGame st = Inr original_path"
  shows "\<exists>evs. CompressISO files discio rnd answer [] st = Inr evs \<and>
           filter is_codec_call evs = [] \<and>
           filter is_success_dialog evs = [] \<and>
           filter is_failure_dialog evs = []"
  using assms by (simp add: CompressISO_def Let_def)

theorem CompressISO_empty_destination_witness:
  "\<exists>evs. CompressISO
            (\<lambda>_. \<lparr>GetPlatformID = WII_DISC, GetBlobType = PLAIN, IsInstalled = False,
                   GetGameID = ''RSPE01''\<rparr>)
            \<lparr>DecompressBlobToFile = (\<lambda>src dst cb arg h. Inr (True, h)),
             CompressFileToBlob = (\<lambda>src dst flag bs cb arg h. Inr (True, h))\<rparr>
            (\<lambda>x. x) Yes []
            \<lparr>m_model = [''/games/sports.iso''], m_table_proxy = [0], m_list_proxy = [0],
             m_table = \<lparr>selectedIndexes = []\<rparr>,
             m_list = \<lparr>selectedIndexes = [\<lparr>row = 0, column = 0\<rparr>]\<rparr>,
             m_prefer_table = False, currentWidget = W_list\<rparr> = Inr evs \<and>
          filter is_codec_call evs = [] \<and>
          filter is_success_dialog evs = [] \<and>
          filter is_failure_dialog evs = []"
  using CompressISO_empty_destination
          [of "\<lparr>m_model = [''/games/sports.iso''], m_table_proxy = [0], m_list_proxy = [0],
               m_table = \<lparr>selectedIndexes = []\<rparr>,
               m_list = \<lparr>selectedIndexes = [\<lparr>row = 0, column = 0\<rparr>]\<rparr>,
               m_prefer_table = False, currentWidget = W_list\<rparr>" "''/games/sports.iso''"]
  by (simp add: GetSelectedGame_def hasSelection_def mapToSource_def GetPath_def rowCount_def)

subsection \<open>The progress callback\<close>

text \<open>
  C10. Called with the null pointer, \<^verbatim>\<open>CompressCB\<close> returns false, the signal to abort,
  and leaves every dialog as it was: it is defined without a progress dialog.
\<close>

theorem CompressCB_null: "CompressCB rnd msg percent None h = Inr (False, h)"
  by (simp add: CompressCB_def)


text \<open>
  The value the callback hands to \<^verbatim>\<open>setValue\<close> for a fraction between 0 and 1: the
  product with 100 without its fraction, between 0 and 100, and within the rounding
  error of the product.
\<close>

lemma float_to_int_0_100:
  assumes "0 \<le> y" "y \<le> 100"
  shows "float_to_int y = Inr \<lfloor>y\<rfloor>" "0 \<le> \<lfloor>y\<rfloor>" "\<lfloor>y\<rfloor> \<le> 100"
proof -
  from assms show lo: "0 \<le> \<lfloor>y\<rfloor>" and hi: "\<lfloor>y\<rfloor> \<le> 100" by (simp_all add: floor_le_iff)
  with assms(1) show "float_to_int y = Inr \<lfloor>y\<rfloor>"
    by (simp add: float_to_int_def toward_zero_def)
qed

lemma percent_times_100_fraction:
  fixes rnd :: "real \<Rightarrow> real" and x :: real
  assumes rnd: "single_rounding rnd" and x: "0 \<le> x" "x \<le> 1"
  shows "\<exists>v. percent_times_100 rnd (Finite x) = Inr v \<and> 0 \<le> v \<and> v \<le> 100 \<and>
             real_of_int v \<le> x * 100 + rounding_error (x * 100) \<and>
             x * 100 - rounding_error (x * 100) < real_of_int v + 1 \<and>
             (x * 100 + rounding_error (x * 100) < 100 \<longrightarrow> v < 100)"
proof -
  let ?X = "x * 100" and ?y = "rnd (x * 100)"
  from x have X: "0 \<le> ?X" "?X \<le> 100" by simp_all
  from rnd have m: "mono rnd" and z: "rnd 0 = 0" and c: "rnd 100 = 100"
    and e: "\<And>t. 0 \<le> t \<Longrightarrow> t \<le> 100 \<Longrightarrow> \<bar>rnd t - t\<bar> \<le> rounding_error t"
    by (simp_all add: single_rounding_def)
  from monoD [OF m X(1)] z have y0: "0 \<le> ?y" by simp
  from monoD [OF m X(2)] c have y1: "?y \<le> 100" by simp
  from e [OF X] have err: "?y \<le> ?X + rounding_error ?X" "?X - rounding_error ?X \<le> ?y"
    by linarith+
  have fl: "real_of_int \<lfloor>?y\<rfloor> \<le> ?y" "?y < real_of_int \<lfloor>?y\<rfloor> + 1" by linarith+
  have "percent_times_100 rnd (Finite x) = Inr \<lfloor>?y\<rfloor>"
    by (simp add: float_to_int_0_100 [OF y0 y1])
  moreover have "0 \<le> \<lfloor>?y\<rfloor>" "\<lfloor>?y\<rfloor> \<le> 100" by (rule float_to_int_0_100 [OF y0 y1])+
  moreover from fl err have "real_of_int \<lfloor>?y\<rfloor> \<le> ?X + rounding_error ?X"
    "?X - rounding_error ?X < real_of_int \<lfloor>?y\<rfloor> + 1" by linarith+
  moreover have "?X + rounding_error ?X < 100 \<longrightarrow> \<lfloor>?y\<rfloor> < 100"
  proof
    assume "?X + rounding_error ?X < 100"
    with err(1) have "?y < 100" by linarith
    then show "\<lfloor>?y\<rfloor> < 100" by (simp add: floor_less_iff)
  qed
  ultimately show ?thesis by blast
qed

lemma setValue_below_maximum:
  "progress_0_100 d \<Longrightarrow> 0 \<le> v \<Longrightarrow> v < 100 \<Longrightarrow> setValue v d = d\<lparr>m_value := v\<rparr>"
  by (simp add: setValue_def progress_0_100_def)

lemma setValue_at_maximum:
  "progress_0_100 d \<Longrightarrow> setValue 100 d = d\<lparr>m_value := - 1, wasCanceled := False\<rparr>"
  by (simp add: setValue_def progress_0_100_def reset_def)

lemma CompressCB_value:
  assumes "h a = Some d" and "percent_times_100 rnd f = Inr v" and "progress_0_100 d"
    and "0 \<le> v" "v \<le> 100"
  shows "CompressCB rnd msg f (Some a) h =
           (if v < 100 then Inr (\<not> wasCanceled d, h(a \<mapsto> d\<lparr>m_value := v\<rparr>))
            else Inr (True, h(a \<mapsto> d\<lparr>m_value := - 1, wasCanceled := False\<rparr>)))"
proof (cases "v < 100")
  case True
  with assms show ?thesis by (simp add: CompressCB_def setValue_below_maximum)
next
  case False
  with assms(5) have "v = 100" by simp
  with assms show ?thesis by (simp add: CompressCB_def setValue_at_maximum)
qed

text \<open>One report of a fraction, as the codec sees it.\<close>

lemma CompressCB_report:
  assumes rnd: "single_rounding rnd" and d: "h a = Some d" "progress_0_100 d"
    and f: "fraction (Report f)"
  shows "\<exists>b d'. CompressCB rnd msg f (Some a) h = Inr (b, h(a \<mapsto> d')) \<and> progress_0_100 d' \<and>
                (\<not> wasCanceled d \<longrightarrow> b \<and> \<not> wasCanceled d')"
proof -
  from f obtain x where x: "f = Finite x" "0 \<le> x" "x \<le> 1" by (cases f) auto
  from percent_times_100_fraction [OF rnd x(2,3)] obtain v where
    v: "percent_times_100 rnd (Finite x) = Inr v" "0 \<le> v" "v \<le> 100" by blast
  note cb = CompressCB_value [where h = h and a = a and msg = msg, OF d(1) v(1) d(2) v(2,3)]
  show ?thesis
  proof (cases "v < 100")
    case True
    with cb x(1) d(2) have "CompressCB rnd msg f (Some a) h =
        Inr (\<not> wasCanceled d, h(a \<mapsto> d\<lparr>m_value := v\<rparr>)) \<and> progress_0_100 (d\<lparr>m_value := v\<rparr>) \<and>
        (\<not> wasCanceled d \<longrightarrow> \<not> wasCanceled d \<and> \<not> wasCanceled (d\<lparr>m_value := v\<rparr>))"
      by (simp add: progress_0_100_def)
    then show ?thesis by blast
  next
    case False
    with cb x(1) d(2) have "CompressCB rnd msg f (Some a) h =
        Inr (True, h(a \<mapsto> d\<lparr>m_value := - 1, wasCanceled := False\<rparr>)) \<and>
        progress_0_100 (d\<lparr>m_value := - 1, wasCanceled := False\<rparr>) \<and>
        (\<not> wasCanceled d \<longrightarrow> True \<and> \<not> wasCanceled (d\<lparr>m_value := - 1, wasCanceled := False\<rparr>))"
      by (simp add: progress_0_100_def)
    then show ?thesis by blast
  qed
qed

lemma codec_run_cancelled:
  assumes rnd: "single_rounding rnd" and pre: "list_all fraction pre"
    and q: "0 \<le> q" "q * 100 + rounding_error (q * 100) < 100"
    and d: "h a = Some d" "progress_0_100 d"
  shows "\<exists>h'. codec_run (pre @ UserCancel # Report (Finite q) # post) outcome (CompressCB rnd)
                (Some a) h = Inr (False, h')"
  using pre d
proof (induction pre arbitrary: h d)
  case Nil
  let ?d = "cancel d"
  have pa: "press_abort (Some a) h = h(a \<mapsto> ?d)" using Nil(2) by simp
  have pd: "progress_0_100 ?d" using Nil(3) by (simp add: progress_0_100_def cancel_def)
  have re: "0 \<le> rounding_error (q * 100)" using q(1) by (simp add: rounding_error_def)
  with q have q1: "q \<le> 1" by linarith
  from percent_times_100_fraction [OF rnd q(1) q1] q(2) obtain v where
    v: "percent_times_100 rnd (Finite q) = Inr v" "0 \<le> v" "v \<le> 100" "v < 100" by blast
  have "CompressCB rnd [] (Finite q) (Some a) (h(a \<mapsto> ?d)) =
          Inr (False, (h(a \<mapsto> ?d))(a \<mapsto> ?d\<lparr>m_value := v\<rparr>))"
    using CompressCB_value [where h = "h(a \<mapsto> ?d)" and a = a and d = ?d and msg = "[]",
                            OF fun_upd_same v(1) pd v(2,3)] v(4)
    by (simp add: cancel_def)
  then show ?case by (simp del: press_abort.simps add: pa)
next
  case (Cons s pre)
  from Cons.prems(1) have s: "fraction s" and rest: "list_all fraction pre" by simp_all
  show ?case
  proof (cases s)
    case (Report f)
    with s have "fraction (Report f)" by simp
    from CompressCB_report [where h = h and a = a and msg = "[]", OF rnd Cons.prems(2,3) this] obtain b d' where
      cb: "CompressCB rnd [] f (Some a) h = Inr (b, h(a \<mapsto> d'))" and pd: "progress_0_100 d'"
      by blast
    from Cons.IH [where h = "h(a \<mapsto> d')" and d = d', OF rest fun_upd_same pd] obtain h' where
      r: "codec_run (pre @ UserCancel # Report (Finite q) # post) outcome (CompressCB rnd)
            (Some a) (h(a \<mapsto> d')) = Inr (False, h')" ..
    show ?thesis using Report by (cases b) (simp_all add: cb r)
  next
    case UserCancel
    have pa: "press_abort (Some a) h = h(a \<mapsto> cancel d)" using Cons.prems(2) by simp
    have pd: "progress_0_100 (cancel d)"
      using Cons.prems(3) by (simp add: progress_0_100_def cancel_def)
    from Cons.IH [where h = "h(a \<mapsto> cancel d)" and d = "cancel d", OF rest fun_upd_same pd]
    obtain h' where
      r: "codec_run (pre @ UserCancel # Report (Finite q) # post) outcome (CompressCB rnd)
            (Some a) (h(a \<mapsto> cancel d)) = Inr (False, h')" ..
    show ?thesis using UserCancel by (simp del: press_abort.simps add: pa r)
  qed
qed

lemma codec_run_undisturbed:
  assumes rnd: "single_rounding rnd" and steps: "list_all fraction steps"
    and nc: "UserCancel \<notin> set steps"
    and d: "h a = Some d" "progress_0_100 d" "\<not> wasCanceled d"
  shows "\<exists>h'. codec_run steps outcome (CompressCB rnd) (Some a) h = Inr (outcome, h')"
  using steps nc d
proof (induction steps arbitrary: h d)
  case Nil
  then show ?case by simp
next
  case (Cons s steps)
  from Cons.prems(2) obtain f where s: "s = Report f" by (cases s) auto
  from Cons.prems(1) s have fr: "fraction (Report f)" and rest: "list_all fraction steps"
    by simp_all
  from Cons.prems(2) have nc': "UserCancel \<notin> set steps" by simp
  from CompressCB_report [where h = h and a = a and msg = "[]", OF rnd Cons.prems(3,4) fr] Cons.prems(5) obtain b d' where
    cb: "CompressCB rnd [] f (Some a) h = Inr (b, h(a \<mapsto> d'))" and pd: "progress_0_100 d'"
    and b: "b" "\<not> wasCanceled d'" by blast
  from Cons.IH [where h = "h(a \<mapsto> d')" and d = d', OF rest nc' fun_upd_same pd b(2)]
  obtain h' where
    r: "codec_run steps outcome (CompressCB rnd) (Some a) (h(a \<mapsto> d')) = Inr (outcome, h')" ..
  show ?case using s b(1) by (simp add: cb r)
qed

lemma new_QProgressDialog_0_100:
  "progress_0_100 (new_QProgressDialog label 0 100)"
  "\<not> wasCanceled (new_QProgressDialog label 0 100)"
  by (simp_all add: progress_0_100_def new_QProgressDialog_def)

lemma CompressISO_spec_codec:
  assumes sel: "GetSelectedGame st = Inr p" and dst: "dst_path \<noteq> []"
    and go: "\<not> (GetBlobType (files p) \<noteq> GCZ \<and> GetPlatformID (files p) = WII_DISC \<and> answer = No)"
    and run: "\<And>label. \<exists>h'. codec_run steps outcome (CompressCB rnd) (Some 0)
                       [0 \<mapsto> new_QProgressDialog label 0 100] = Inr (good, h')"
  shows "\<exists>before call.
           CompressISO files (spec_DiscIO steps outcome) rnd answer dst_path st =
             Inr (before @
                  [call,
                   if good then QMessageBox_exec ''Success!'' ''Successfully compressed image.''
                   else QErrorMessage_showMessage
                          ''Dolphin failed to complete the requested action.'']) \<and>
           is_codec_call call \<and> codec_result call = Some good \<and>
           list_all (\<lambda>e. \<not> is_codec_call e \<and> \<not> is_success_dialog e \<and> \<not> is_failure_dialog e)
             before"
proof -
  let ?label = "if GetBlobType (files p) = GCZ then ''Decompressing...'' else ''Compressing...''"
  from run [of ?label] obtain h' where
    r: "codec_run steps outcome (CompressCB rnd) (Some 0)
          [0 \<mapsto> new_QProgressDialog ?label 0 100] = Inr (good, h')" ..
  show ?thesis
  proof (rule CompressISO_runs_codec [where h' = h' and files = files, OF sel dst go])
    show "(if GetBlobType (files p) = GCZ
           then DecompressBlobToFile (spec_DiscIO steps outcome) p dst_path (CompressCB rnd) (Some 0)
                  [0 \<mapsto> new_QProgressDialog ''Decompressing...'' 0 100]
           else CompressFileToBlob (spec_DiscIO steps outcome) p dst_path
                  (if GetPlatformID (files p) = WII_DISC then 1 else 0) 16384 (CompressCB rnd)
                  (Some 0) [0 \<mapsto> new_QProgressDialog ''Compressing...'' 0 100]) = Inr (good, h')"
      using r by (cases "GetBlobType (files p) = GCZ") (simp_all add: spec_DiscIO_def)
  qed
qed

text \<open>
  Three runs of the callback on the dialog of \<^verbatim>\<open>CompressISO\<close>: half way, the value is
  50; for a fraction whose product with 100 does not fit an \<^verbatim>\<open>int\<close> the conversion is
  undefined; for the fraction 2 the product 200 lies outside the range and the dialog
  keeps its value.
\<close>

lemma CompressCB_examples:
  "CompressCB (\<lambda>x. x) [] (Finite (1 / 2)) (Some 0) [0 \<mapsto> new_QProgressDialog [] 0 100] =
     Inr (True, [0 \<mapsto> (new_QProgressDialog [] 0 100)\<lparr>m_value := 50\<rparr>])"
  "CompressCB (\<lambda>x. x) [] (Finite 10000000000) (Some 0) [0 \<mapsto> new_QProgressDialog [] 0 100] =
     Inl IntConversionUndefined"
  "CompressCB (\<lambda>x. x) [] NotFinite (Some 0) [0 \<mapsto> new_QProgressDialog [] 0 100] =
     Inl IntConversionUndefined"
  "CompressCB (\<lambda>x. x) [] (Finite 2) (Some 0) [0 \<mapsto> new_QProgressDialog [] 0 100] =
     Inr (True, [0 \<mapsto> new_QProgressDialog [] 0 100])"
  by (simp_all add: CompressCB_def float_to_int_def toward_zero_def setValue_def
        new_QProgressDialog_def)

text \<open>
  C8, as the code has it. Called with the address of the progress dialog that
  \<^verbatim>\<open>CompressISO\<close> creates and a fraction between 0 and 1, \<^verbatim>\<open>CompressCB\<close> hands to the
  dialog the fraction times 100 without its fraction, a value between 0 and 100 that
  differs from the exact product by less than 1 and the rounding error. While that value
  is below 100 the dialog takes it and the callback returns true exactly when the user
  has not cancelled; at 100 the dialog resets itself and the callback returns true.
  With the codec of the specification, a press of Abort followed by a report below the
  maximum makes the codec return false, and the handler ends with the error message and
  no success box; with no press of Abort the codec runs to its own result, which
  decides the message.
\<close>

theorem CompressCB_progress_and_cancel:
  fixes rnd :: "real \<Rightarrow> real"
  assumes rnd: "single_rounding rnd"
  shows
  "(h a = Some d \<and> progress_0_100 d \<and> 0 \<le> x \<and> x \<le> 1 \<longrightarrow>
      (\<exists>v. 0 \<le> v \<and> v \<le> 100 \<and>
            real_of_int v \<le> x * 100 + rounding_error (x * 100) \<and>
            x * 100 - rounding_error (x * 100) < real_of_int v + 1 \<and>
            CompressCB rnd msg (Finite x) (Some a) h =
              (if v < 100 then Inr (\<not> wasCanceled d, h(a \<mapsto> d\<lparr>m_value := v\<rparr>))
               else Inr (True, h(a \<mapsto> d\<lparr>m_value := - 1, wasCanceled := False\<rparr>))))) \<and>
   (GetSelectedGame st = Inr p \<and> dst_path \<noteq> [] \<and>
    \<not> (GetBlobType (files p) \<noteq> GCZ \<and> GetPlatformID (files p) = WII_DISC \<and> answer = No) \<and>
    list_all fraction pre \<and> 0 \<le> q \<and> q * 100 + rounding_error (q * 100) < 100 \<longrightarrow>
      (\<exists>before call.
          CompressISO files (spec_DiscIO (pre @ UserCancel # Report (Finite q) # post) outcome)
            rnd answer dst_path st =
            Inr (before @
                 [call,
                  QErrorMessage_showMessage
                    ''Dolphin failed to complete the requested action.'']) \<and>
          is_codec_call call \<and> codec_result call = Some False \<and>
          list_all (\<lambda>e. \<not> is_codec_call e \<and> \<not> is_success_dialog e \<and> \<not> is_failure_dialog e)
            before)) \<and>
   (GetSelectedGame st = Inr p \<and> dst_path \<noteq> [] \<and>
    \<not> (GetBlobType (files p) \<noteq> GCZ \<and> GetPlatformID (files p) = WII_DISC \<and> answer = No) \<and>
    list_all fraction steps \<and> UserCancel \<notin> set steps \<longrightarrow>
      (\<exists>before call.
          CompressISO files (spec_DiscIO steps outcome) rnd answer dst_path st =
            Inr (before @
                 [call,
                  if outcome
                  then QMessageBox_exec ''Success!'' ''Successfully compressed image.''
                  else QErrorMessage_showMessage
                         ''Dolphin failed to complete the requested action.'']) \<and>
          is_codec_call call \<and> codec_result call = Some outcome \<and>
          list_all (\<lambda>e. \<not> is_codec_call e \<and> \<not> is_success_dialog e \<and> \<not> is_failure_dialog e)
            before))"
proof (intro conjI impI)
  assume a: "h a = Some d \<and> progress_0_100 d \<and> 0 \<le> x \<and> x \<le> 1"
  then have d: "h a = Some d" "progress_0_100 d" and x: "0 \<le> x" "x \<le> 1" by simp_all
  from percent_times_100_fraction [OF rnd x] obtain v where
    v: "percent_times_100 rnd (Finite x) = Inr v" "0 \<le> v" "v \<le> 100"
       "real_of_int v \<le> x * 100 + rounding_error (x * 100)"
       "x * 100 - rounding_error (x * 100) < real_of_int v + 1" by blast
  note cb = CompressCB_value [where h = h and a = a and msg = msg, OF d(1) v(1) d(2) v(2,3)]
  from v(2-5) cb show "\<exists>v. 0 \<le> v \<and> v \<le> 100 \<and>
            real_of_int v \<le> x * 100 + rounding_error (x * 100) \<and>
            x * 100 - rounding_error (x * 100) < real_of_int v + 1 \<and>
            CompressCB rnd msg (Finite x) (Some a) h =
              (if v < 100 then Inr (\<not> wasCanceled d, h(a \<mapsto> d\<lparr>m_value := v\<rparr>))
               else Inr (True, h(a \<mapsto> d\<lparr>m_value := - 1, wasCanceled := False\<rparr>)))"
    by blast
next
  assume a: "GetSelectedGame st = Inr p \<and> dst_path \<noteq> [] \<and>
    \<not> (GetBlobType (files p) \<noteq> GCZ \<and> GetPlatformID (files p) = WII_DISC \<and> answer = No) \<and>
    list_all fraction pre \<and> 0 \<le> q \<and> q * 100 + rounding_error (q * 100) < 100"
  then have sel: "GetSelectedGame st = Inr p" and dst: "dst_path \<noteq> []"
    and go: "\<not> (GetBlobType (files p) \<noteq> GCZ \<and> GetPlatformID (files p) = WII_DISC \<and> answer = No)"
    and pre: "list_all fraction pre" and q: "0 \<le> q" "q * 100 + rounding_error (q * 100) < 100"
    by simp_all
  have run: "\<exists>h'. codec_run (pre @ UserCancel # Report (Finite q) # post) outcome (CompressCB rnd)
                  (Some 0) [0 \<mapsto> new_QProgressDialog label 0 100] = Inr (False, h')" for label
    by (rule codec_run_cancelled [OF rnd pre q fun_upd_same new_QProgressDialog_0_100(1)])
  from CompressISO_spec_codec [where good = False and files = files, OF sel dst go run]
  show "\<exists>before call.
          CompressISO files (spec_DiscIO (pre @ UserCancel # Report (Finite q) # post) outcome)
            rnd answer dst_path st =
            Inr (before @
                 [call,
                  QErrorMessage_showMessage
                    ''Dolphin failed to complete the requested action.'']) \<and>
          is_codec_call call \<and> codec_result call = Some False \<and>
          list_all (\<lambda>e. \<not> is_codec_call e \<and> \<not> is_success_dialog e \<and> \<not> is_failure_dialog e)
            before"
    by simp
next
  assume a: "GetSelectedGame st = Inr p \<and> dst_path \<noteq> [] \<and>
    \<not> (GetBlobType (files p) \<noteq> GCZ \<and> GetPlatformID (files p) = WII_DISC \<and> answer = No) \<and>
    list_all fraction steps \<and> UserCancel \<notin> set steps"
  then have sel: "GetSelectedGame st = Inr p" and dst: "dst_path \<noteq> []"
    and go: "\<not> (GetBlobType (files p) \<noteq> GCZ \<and> GetPlatformID (files p) = WII_DISC \<and> answer = No)"
    and steps: "list_all fraction steps" and nc: "UserCancel \<notin> set steps"
    by simp_all
  have run: "\<exists>h'. codec_run steps outcome (CompressCB rnd) (Some 0)
                  [0 \<mapsto> new_QProgressDialog label 0 100] = Inr (outcome, h')" for label
    by (rule codec_run_undisturbed
              [OF rnd steps nc fun_upd_same new_QProgressDialog_0_100(1)
                  new_QProgressDialog_0_100(2)])
  from CompressISO_spec_codec [where good = outcome and files = files, OF sel dst go run]
  show "\<exists>before call.
          CompressISO files (spec_DiscIO steps outcome) rnd answer dst_path st =
            Inr (before @
                 [call,
                  if outcome
                  then QMessageBox_exec ''Success!'' ''Successfully compressed image.''
                  else QErrorMessage_showMessage
                         ''Dolphin failed to complete the requested action.'']) \<and>
          is_codec_call call \<and> codec_result call = Some outcome \<and>
          list_all (\<lambda>e. \<not> is_codec_call e \<and> \<not> is_success_dialog e \<and> \<not> is_failure_dialog e)
            before" .
qed

theorem CompressCB_progress_and_cancel_witness:
  "(\<exists>v. 0 \<le> v \<and> v \<le> 100 \<and>
        real_of_int v \<le> 1 / 2 * 100 + rounding_error (1 / 2 * 100) \<and>
        1 / 2 * 100 - rounding_error (1 / 2 * 100) < real_of_int v + 1 \<and>
        CompressCB (\<lambda>x. x) ''Compressing...'' (Finite (1 / 2)) (Some 0)
          [0 \<mapsto> \<lparr>labelText = ''Compressing...'', minimum = 0, maximum = 100, m_value = 25,
                 autoReset = True, wasCanceled = False\<rparr>] =
          (if v < 100
           then Inr (\<not> wasCanceled
                         \<lparr>labelText = ''Compressing...'', minimum = 0, maximum = 100,
                          m_value = 25, autoReset = True, wasCanceled = False\<rparr>,
                     [0 \<mapsto> \<lparr>labelText = ''Compressing...'', minimum = 0, maximum = 100,
                            m_value = 25, autoReset = True, wasCanceled = False\<rparr>]
                       (0 \<mapsto> \<lparr>labelText = ''Compressing...'', minimum = 0, maximum = 100,
                              m_value = 25, autoReset = True, wasCanceled = False\<rparr>
                             \<lparr>m_value := v\<rparr>))
           else Inr (True,
                     [0 \<mapsto> \<lparr>labelText = ''Compressing...'', minimum = 0, maximum = 100,
                            m_value = 25, autoReset = True, wasCanceled = False\<rparr>]
                       (0 \<mapsto> \<lparr>labelText = ''Compressing...'', minimum = 0, maximum = 100,
                              m_value = 25, autoReset = True, wasCanceled = False\<rparr>
                             \<lparr>m_value := - 1, wasCanceled := False\<rparr>)))) \<and>
   (\<exists>before call.
      CompressISO
        (\<lambda>_. \<lparr>GetPlatformID = GAMECUBE_DISC, GetBlobType = PLAIN, IsInstalled = False,
               GetGameID = ''GALE01''\<rparr>)
        (spec_DiscIO ([Report (Finite (1 / 4))] @ UserCancel # Report (Finite (1 / 2)) #
                      [Report (Finite 1)]) True)
        (\<lambda>x. x) Yes ''/out/melee.gcz''
        \<lparr>m_model = [''/games/melee.iso''], m_table_proxy = [0], m_list_proxy = [0],
         m_table = \<lparr>selectedIndexes = [\<lparr>row = 0, column = 0\<rparr>]\<rparr>,
         m_list = \<lparr>selectedIndexes = []\<rparr>,
         m_prefer_table = True, currentWidget = W_table\<rparr> =
        Inr (before @
             [call,
              QErrorMessage_showMessage ''Dolphin failed to complete the requested action.'']) \<and>
      is_codec_call call \<and> codec_result call = Some False \<and>
      list_all (\<lambda>e. \<not> is_codec_call e \<and> \<not> is_success_dialog e \<and> \<not> is_failure_dialog e)
        before) \<and>
   (\<exists>before call.
      CompressISO
        (\<lambda>_. \<lparr>GetPlatformID = GAMECUBE_DISC, GetBlobType = PLAIN, IsInstalled = False,
               GetGameID = ''GALE01''\<rparr>)
        (spec_DiscIO [Report (Finite (1 / 4)), Report (Finite 1)] True)
        (\<lambda>x. x) Yes ''/out/melee.gcz''
        \<lparr>m_model = [''/games/melee.iso''], m_table_proxy = [0], m_list_proxy = [0],
         m_table = \<lparr>selectedIndexes = [\<lparr>row = 0, column = 0\<rparr>]\<rparr>,
         m_list = \<lparr>selectedIndexes = []\<rparr>,
         m_prefer_table = True, currentWidget = W_table\<rparr> =
        Inr (before @
             [call,
              if True then QMessageBox_exec ''Success!'' ''Successfully compressed image.''
              else QErrorMessage_showMessage
                     ''Dolphin failed to complete the requested action.'']) \<and>
      is_codec_call call \<and> codec_result call = Some True \<and>
      list_all (\<lambda>e. \<not> is_codec_call e \<and> \<not> is_success_dialog e \<and> \<not> is_failure_dialog e)
        before)"
proof -
  let ?st = "\<lparr>m_model = [''/games/melee.iso''], m_table_proxy = [0], m_list_proxy = [0],
              m_table = \<lparr>selectedIndexes = [\<lparr>row = 0, column = 0\<rparr>]\<rparr>,
              m_list = \<lparr>selectedIndexes = []\<rparr>,
              m_prefer_table = True, currentWidget = W_table\<rparr>"
  let ?files = "\<lambda>_::string. \<lparr>GetPlatformID = GAMECUBE_DISC, GetBlobType = PLAIN,
                               IsInstalled = False, GetGameID = ''GALE01''\<rparr>"
  let ?d = "\<lparr>labelText = ''Compressing...'', minimum = 0, maximum = 100, m_value = 25,
             autoReset = True, wasCanceled = False\<rparr>"
  have rnd: "single_rounding (\<lambda>x. x)"
    by (simp add: single_rounding_def mono_def rounding_error_def)
  have sel: "GetSelectedGame ?st = Inr ''/games/melee.iso''"
    by (simp add: GetSelectedGame_def hasSelection_def mapToSource_def GetPath_def rowCount_def)
  have half: "(1 / 2 :: real) * 100 + rounding_error (1 / 2 * 100) < 100"
    by (simp add: rounding_error_def)
  note inst = CompressCB_progress_and_cancel
      [OF rnd,
       where h = "[0 \<mapsto> ?d]" and a = 0 and d = ?d and x = "1 / 2" and msg = "''Compressing...''"
         and st = ?st and p = "''/games/melee.iso''" and dst_path = "''/out/melee.gcz''"
         and files = ?files and answer = Yes and outcome = True
         and pre = "[Report (Finite (1 / 4))]" and q = "1 / 2" and post = "[Report (Finite 1)]"
         and steps = "[Report (Finite (1 / 4)), Report (Finite 1)]"]
  have h1: "[0 \<mapsto> ?d] 0 = Some ?d \<and> progress_0_100 ?d \<and> (0::real) \<le> 1 / 2 \<and> (1 / 2 :: real) \<le> 1"
    by (simp add: progress_0_100_def)
  have h2: "GetSelectedGame ?st = Inr ''/games/melee.iso'' \<and> ''/out/melee.gcz'' \<noteq> [] \<and>
            \<not> (GetBlobType (?files ''/games/melee.iso'') \<noteq> GCZ \<and>
               GetPlatformID (?files ''/games/melee.iso'') = WII_DISC \<and> Yes = No) \<and>
            list_all fraction [Report (Finite (1 / 4))] \<and> (0::real) \<le> 1 / 2 \<and>
            (1 / 2 :: real) * 100 + rounding_error (1 / 2 * 100) < 100"
    using sel half by simp
  have h3: "GetSelectedGame ?st = Inr ''/games/melee.iso'' \<and> ''/out/melee.gcz'' \<noteq> [] \<and>
            \<not> (GetBlobType (?files ''/games/melee.iso'') \<noteq> GCZ \<and>
               GetPlatformID (?files ''/games/melee.iso'') = WII_DISC \<and> Yes = No) \<and>
            list_all fraction [Report (Finite (1 / 4)), Report (Finite 1)] \<and>
            UserCancel \<notin> set [Report (Finite (1 / 4)), Report (Finite 1)]"
    using sel by simp
  from inst [THEN conjunct1, THEN mp, OF h1]
       inst [THEN conjunct2, THEN conjunct1, THEN mp, OF h2]
       inst [THEN conjunct2, THEN conjunct2, THEN mp, OF h3]
  show ?thesis by (intro conjI)
qed

text \<open>
  C8 as stated fails where the value reaches the maximum of the dialog: the user has
  pressed Abort, the codec reports the fraction 1, and the callback returns true,
  because the dialog has reset itself at 100, which rewinds the value and clears the
  cancellation. The codec goes on, and the handler shows the success box to a user who
  has cancelled.
\<close>

theorem CompressCB_at_maximum_counterexample:
  "wasCanceled \<lparr>labelText = ''Compressing...'', minimum = 0, maximum = 100, m_value = 99,
                autoReset = True, wasCanceled = True\<rparr> \<and>
   CompressCB (\<lambda>x. x) ''Compressing...'' (Finite 1) (Some 0)
     [0 \<mapsto> \<lparr>labelText = ''Compressing...'', minimum = 0, maximum = 100, m_value = 99,
            autoReset = True, wasCanceled = True\<rparr>] =
     Inr (True,
          [0 \<mapsto> \<lparr>labelText = ''Compressing...'', minimum = 0, maximum = 100, m_value = - 1,
                 autoReset = True, wasCanceled = False\<rparr>]) \<and>
   CompressISO
     (\<lambda>_. \<lparr>GetPlatformID = GAMECUBE_DISC, GetBlobType = PLAIN, IsInstalled = False,
            GetGameID = ''GALE01''\<rparr>)
     (spec_DiscIO [Report (Finite (1 / 2)), UserCancel, Report (Finite 1)] True)
     (\<lambda>x. x) Yes ''/out/melee.gcz''
     \<lparr>m_model = [''/games/melee.iso''], m_table_proxy = [0], m_list_proxy = [0],
      m_table = \<lparr>selectedIndexes = [\<lparr>row = 0, column = 0\<rparr>]\<rparr>,
      m_list = \<lparr>selectedIndexes = []\<rparr>,
      m_prefer_table = True, currentWidget = W_table\<rparr> =
     Inr [getSaveFileName ''Select where you want to save the compressed image'' ''/out/melee.gcz'',
          CompressFileToBlob_call ''/games/melee.iso'' ''/out/melee.gcz'' 0 16384 True,
          QMessageBox_exec ''Success!'' ''Successfully compressed image.'']"
  by (simp add: CompressCB_def float_to_int_def toward_zero_def setValue_def reset_def
        CompressISO_def GetSelectedGame_def hasSelection_def mapToSource_def GetPath_def
        rowCount_def spec_DiscIO_def new_QProgressDialog_def cancel_def)


section \<open>Properties of file deletion\<close>

text \<open>
  The loop unfolds once per attempt: it stops after a successful attempt and after a
  failed one answered with Abort, and goes on to the next attempt after a failed one
  answered otherwise.
\<close>

lemma DeleteFile_loop_retries:
  assumes "\<forall>i<n. \<not> File_Delete (k + i) game \<and> error_exec (k + i) = Retry"
  shows "DeleteFile_loop File_Delete error_exec game k m evs =
         DeleteFile_loop File_Delete error_exec game (k + n) m (evs @ failed_attempts game n)"
  using assms
proof (induction n arbitrary: k evs)
  case 0
  then show ?case by (simp add: failed_attempts_def)
next
  case (Suc n)
  from Suc.prems have "\<not> File_Delete (k + 0) game \<and> error_exec (k + 0) = Retry"
    by blast
  then have here: "\<not> File_Delete k game" "error_exec k = Retry" by simp_all
  have later: "\<forall>i<n. \<not> File_Delete (Suc k + i) game \<and> error_exec (Suc k + i) = Retry"
  proof (intro allI impI)
    fix i assume "i < n"
    then have "Suc i < Suc n" by simp
    with Suc.prems have "\<not> File_Delete (k + Suc i) game \<and> error_exec (k + Suc i) = Retry"
      by blast
    then show "\<not> File_Delete (Suc k + i) game \<and> error_exec (Suc k + i) = Retry" by simp
  qed
  have "DeleteFile_loop File_Delete error_exec game k m evs =
        DeleteFile_loop File_Delete error_exec game (Suc k) m
          (evs @ [File_Delete_call game False, error_dialog_exec Retry])"
    using here by (subst DeleteFile_loop.simps) simp
  also have "\<dots> = DeleteFile_loop File_Delete error_exec game (Suc k + n) m
          ((evs @ [File_Delete_call game False, error_dialog_exec Retry]) @ failed_attempts game n)"
    by (rule Suc.IH [OF later])
  finally show ?case by (simp add: failed_attempts_def)
qed

lemma DeleteFile_loop_success:
  "File_Delete k game \<Longrightarrow>
   DeleteFile_loop File_Delete error_exec game k m evs =
     Some (RemoveGame m game, evs @ [File_Delete_call game True, RemoveGame_call game])"
  by (subst DeleteFile_loop.simps) simp

lemma DeleteFile_loop_abort:
  "\<not> File_Delete k game \<Longrightarrow> error_exec k = Abort \<Longrightarrow>
   DeleteFile_loop File_Delete error_exec game k m evs =
     Some (m, evs @ [File_Delete_call game False, error_dialog_exec Abort])"
  by (subst DeleteFile_loop.simps) simp

text \<open>Removing the game takes one entry, the first of that path, out of the catalogue.\<close>

lemma RemoveGame_one_entry:
  "game \<in> set m \<Longrightarrow> \<exists>xs ys. m = xs @ game # ys \<and> game \<notin> set xs \<and> RemoveGame m game = xs @ ys"
  unfolding RemoveGame_def
proof (induction m)
  case Nil
  then show ?case by simp
next
  case (Cons x m)
  show ?case
  proof (cases "x = game")
    case True
    then have "x # m = [] @ game # m \<and> game \<notin> set [] \<and> remove1 game (x # m) = [] @ m" by simp
    then show ?thesis by blast
  next
    case False
    with Cons obtain xs ys where "m = xs @ game # ys" "game \<notin> set xs" "remove1 game m = xs @ ys"
      by auto
    with False have "x # m = (x # xs) @ game # ys \<and> game \<notin> set (x # xs) \<and>
                     remove1 game (x # m) = (x # xs) @ ys" by auto
    then show ?thesis by blast
  qed
qed

text \<open>
  A loop that returns has met an attempt that succeeded or was answered with Abort, after
  attempts that all failed without being answered with Abort. The loop in which every
  attempt fails and none is answered with Abort does not return.
\<close>

lemma DeleteFile_loop_Some:
  assumes "DeleteFile_loop File_Delete error_exec game k m evs = Some r"
  shows "\<exists>n. (\<forall>i<n. \<not> File_Delete (k + i) game \<and> error_exec (k + i) \<noteq> Abort) \<and>
             (File_Delete (k + n) game \<or> error_exec (k + n) = Abort)"
proof (rule DeleteFile_loop.raw_induct
         [where P = "\<lambda>File_Delete error_exec game k m evs r.
                       \<exists>n. (\<forall>i<n. \<not> File_Delete (k + i) game \<and> error_exec (k + i) \<noteq> Abort) \<and>
                           (File_Delete (k + n) game \<or> error_exec (k + n) = Abort)",
          OF _ assms])
  fix loop :: "(nat \<Rightarrow> string \<Rightarrow> bool) \<Rightarrow> (nat \<Rightarrow> StandardButton) \<Rightarrow> string \<Rightarrow> nat \<Rightarrow>
                GameListModel \<Rightarrow> delete_event list \<Rightarrow> (GameListModel \<times> delete_event list) option"
    and File_Delete :: "nat \<Rightarrow> string \<Rightarrow> bool" and error_exec :: "nat \<Rightarrow> StandardButton"
    and game :: string and k :: nat and m :: GameListModel and evs :: "delete_event list"
    and r :: "GameListModel \<times> delete_event list"
  assume IH: "\<And>File_Delete error_exec game k m evs r.
                loop File_Delete error_exec game k m evs = Some r \<Longrightarrow>
                \<exists>n. (\<forall>i<n. \<not> File_Delete (k + i) game \<and> error_exec (k + i) \<noteq> Abort) \<and>
                    (File_Delete (k + n) game \<or> error_exec (k + n) = Abort)"
    and body: "(let deletion_successful = File_Delete k game in
                if deletion_successful
                then Some (RemoveGame m game,
                           evs @ [File_Delete_call game True, RemoveGame_call game])
                else if error_exec k = Abort
                     then Some (m, evs @ [File_Delete_call game False,
                                          error_dialog_exec (error_exec k)])
                     else loop File_Delete error_exec game (k + 1) m
                            (evs @ [File_Delete_call game False,
                                    error_dialog_exec (error_exec k)])) = Some r"
  show "\<exists>n. (\<forall>i<n. \<not> File_Delete (k + i) game \<and> error_exec (k + i) \<noteq> Abort) \<and>
            (File_Delete (k + n) game \<or> error_exec (k + n) = Abort)"
  proof (cases "File_Delete k game \<or> error_exec k = Abort")
    case True
    then have "(\<forall>i<0::nat. \<not> File_Delete (k + i) game \<and> error_exec (k + i) \<noteq> Abort) \<and>
               (File_Delete (k + 0) game \<or> error_exec (k + 0) = Abort)" by simp
    then show ?thesis ..
  next
    case False
    with body have "loop File_Delete error_exec game (k + 1) m
                      (evs @ [File_Delete_call game False, error_dialog_exec (error_exec k)]) =
                    Some r" by (simp add: Let_def)
    from IH [OF this] obtain n where
      n0: "(\<forall>i<n. \<not> File_Delete (k + 1 + i) game \<and> error_exec (k + 1 + i) \<noteq> Abort) \<and>
           (File_Delete (k + 1 + n) game \<or> error_exec (k + 1 + n) = Abort)" ..
    note n = n0 [THEN conjunct1] n0 [THEN conjunct2]
    have "\<forall>i<Suc n. \<not> File_Delete (k + i) game \<and> error_exec (k + i) \<noteq> Abort"
    proof (intro allI impI)
      fix i assume "i < Suc n"
      show "\<not> File_Delete (k + i) game \<and> error_exec (k + i) \<noteq> Abort"
      proof (cases i)
        case 0
        with False show ?thesis by simp
      next
        case (Suc j)
        with \<open>i < Suc n\<close> have "j < n" by simp
        with n(1) have "\<not> File_Delete (k + 1 + j) game \<and> error_exec (k + 1 + j) \<noteq> Abort"
          by blast
        with Suc show ?thesis by simp
      qed
    qed
    moreover from n(2) have "File_Delete (k + Suc n) game \<or> error_exec (k + Suc n) = Abort"
      by simp
    ultimately have "(\<forall>i<Suc n. \<not> File_Delete (k + i) game \<and> error_exec (k + i) \<noteq> Abort) \<and>
                     (File_Delete (k + Suc n) game \<or> error_exec (k + Suc n) = Abort)" ..
    then show ?thesis ..
  qed
qed

lemma DeleteFile_loop_never_ends:
  assumes "\<forall>i. \<not> File_Delete i game \<and> error_exec i \<noteq> Abort"
  shows "DeleteFile_loop File_Delete error_exec game k m evs = None"
proof (cases "DeleteFile_loop File_Delete error_exec game k m evs")
  case None
  then show ?thesis .
next
  case (Some r)
  from DeleteFile_loop_Some [OF this] assms show ?thesis by blast
qed

lemma failed_attempts_counts:
  "length (filter is_delete_attempt (failed_attempts game n)) = n"
  "length (filter (\<lambda>e. e = error_dialog_exec Retry) (failed_attempts game n)) = n"
  by (induction n) (simp_all add: failed_attempts_def)

lemma DeleteFile_confirmed:
  "GetSelectedGame st = Inr game \<Longrightarrow>
   DeleteFile Yes File_Delete error_exec st =
     map_option Inr (DeleteFile_loop File_Delete error_exec game 0 (m_model st) [confirm_exec Yes])"
  by (simp add: DeleteFile_def)

lemma DeleteFile_after_retries:
  assumes "GetSelectedGame st = Inr game"
    and "\<forall>i<n. \<not> File_Delete i game \<and> error_exec i = Retry"
  shows "DeleteFile Yes File_Delete error_exec st =
         map_option Inr (DeleteFile_loop File_Delete error_exec game n (m_model st)
                           (confirm_exec Yes # failed_attempts game n))"
  using DeleteFile_loop_retries [of n File_Delete 0 game error_exec "m_model st" "[confirm_exec Yes]"]
    assms(2)
  by (simp add: DeleteFile_confirmed [OF assms(1)])

text \<open>
  C4. A confirmed \<^verbatim>\<open>DeleteFile\<close> whose first \<open>n\<close> attempts fail and are each answered
  with Retry: if attempt \<open>n\<close> fails too and is answered with Abort, the handler returns
  with the catalogue as it was; if attempt \<open>n\<close> succeeds, the handler returns after that
  attempt with \<^verbatim>\<open>RemoveGame\<close> applied once, which takes exactly the entry of the game out
  of a catalogue that holds it. In every run that returns, the dialog offering Retry and
  Abort only, the number of delete attempts is one more than the number of Retry
  answers: the file is never deleted again without the user asking for it.
\<close>

theorem DeleteFile_retry_loop:
  assumes "GetSelectedGame st = Inr game"
  shows
  "((\<forall>i<n. \<not> File_Delete i game \<and> error_exec i = Retry) \<and>
    \<not> File_Delete n game \<and> error_exec n = Abort \<longrightarrow>
      DeleteFile Yes File_Delete error_exec st =
        Some (Inr (m_model st,
                   confirm_exec Yes # failed_attempts game n @
                   [File_Delete_call game False, error_dialog_exec Abort]))) \<and>
   ((\<forall>i<n. \<not> File_Delete i game \<and> error_exec i = Retry) \<and> File_Delete n game \<longrightarrow>
      DeleteFile Yes File_Delete error_exec st =
        Some (Inr (RemoveGame (m_model st) game,
                   confirm_exec Yes # failed_attempts game n @
                   [File_Delete_call game True, RemoveGame_call game])) \<and>
      (game \<in> set (m_model st) \<longrightarrow>
         (\<exists>xs ys. m_model st = xs @ game # ys \<and> game \<notin> set xs \<and>
                  RemoveGame (m_model st) game = xs @ ys))) \<and>
   ((\<forall>i. error_exec i = Retry \<or> error_exec i = Abort) \<and>
    DeleteFile Yes File_Delete error_exec st = Some (Inr (m', evs)) \<longrightarrow>
      length (filter is_delete_attempt evs) =
        Suc (length (filter (\<lambda>e. e = error_dialog_exec Retry) evs)))"
proof (intro conjI impI)
  assume a: "(\<forall>i<n. \<not> File_Delete i game \<and> error_exec i = Retry) \<and>
             \<not> File_Delete n game \<and> error_exec n = Abort"
  then have r: "\<forall>i<n. \<not> File_Delete i game \<and> error_exec i = Retry"
    and f: "\<not> File_Delete n game" and b: "error_exec n = Abort" by blast+
  show "DeleteFile Yes File_Delete error_exec st =
        Some (Inr (m_model st,
                   confirm_exec Yes # failed_attempts game n @
                   [File_Delete_call game False, error_dialog_exec Abort]))"
    by (simp add: DeleteFile_after_retries
          [where File_Delete = File_Delete and error_exec = error_exec, OF assms r] DeleteFile_loop_abort
          [where File_Delete = File_Delete and error_exec = error_exec, OF f b])
next
  assume a: "(\<forall>i<n. \<not> File_Delete i game \<and> error_exec i = Retry) \<and> File_Delete n game"
  then have r: "\<forall>i<n. \<not> File_Delete i game \<and> error_exec i = Retry"
    and f: "File_Delete n game" by blast+
  show "DeleteFile Yes File_Delete error_exec st =
        Some (Inr (RemoveGame (m_model st) game,
                   confirm_exec Yes # failed_attempts game n @
                   [File_Delete_call game True, RemoveGame_call game]))"
    by (simp add: DeleteFile_after_retries
          [where File_Delete = File_Delete and error_exec = error_exec, OF assms r] DeleteFile_loop_success [where File_Delete = File_Delete, OF f])
next
  assume "game \<in> set (m_model st)"
  then show "\<exists>xs ys. m_model st = xs @ game # ys \<and> game \<notin> set xs \<and>
                     RemoveGame (m_model st) game = xs @ ys"
    by (rule RemoveGame_one_entry)
next
  assume a: "(\<forall>i. error_exec i = Retry \<or> error_exec i = Abort) \<and>
             DeleteFile Yes File_Delete error_exec st = Some (Inr (m', evs))"
  then have buttons: "\<And>i. error_exec i \<noteq> Abort \<Longrightarrow> error_exec i = Retry" by blast
  from a have run: "DeleteFile_loop File_Delete error_exec game 0 (m_model st) [confirm_exec Yes] =
                      Some (m', evs)"
    by (auto simp: DeleteFile_confirmed [OF assms])
  from DeleteFile_loop_Some [OF run] obtain k where
    k0: "(\<forall>i<k. \<not> File_Delete (0 + i) game \<and> error_exec (0 + i) \<noteq> Abort) \<and>
         (File_Delete (0 + k) game \<or> error_exec (0 + k) = Abort)" ..
  from k0 buttons have retries: "\<forall>i<k. \<not> File_Delete i game \<and> error_exec i = Retry" by simp
  from k0 have last: "File_Delete k game \<or> error_exec k = Abort" by simp
  have "DeleteFile Yes File_Delete error_exec st =
        map_option Inr (DeleteFile_loop File_Delete error_exec game k (m_model st)
                          (confirm_exec Yes # failed_attempts game k))"
    by (rule DeleteFile_after_retries
          [where File_Delete = File_Delete and error_exec = error_exec, OF assms retries])
  with a have loop: "DeleteFile_loop File_Delete error_exec game k (m_model st)
                       (confirm_exec Yes # failed_attempts game k) = Some (m', evs)"
    by auto
  show "length (filter is_delete_attempt evs) =
        Suc (length (filter (\<lambda>e. e = error_dialog_exec Retry) evs))"
  proof (cases "File_Delete k game")
    case True
    from loop have "evs = confirm_exec Yes # failed_attempts game k @
                          [File_Delete_call game True, RemoveGame_call game]"
      by (simp add: DeleteFile_loop_success [where File_Delete = File_Delete, OF True])
    then show ?thesis by (simp add: failed_attempts_counts)
  next
    case False
    with last have b: "error_exec k = Abort" by simp
    from loop have "evs = confirm_exec Yes # failed_attempts game k @
                          [File_Delete_call game False, error_dialog_exec Abort]"
      by (simp add: DeleteFile_loop_abort
          [where File_Delete = File_Delete and error_exec = error_exec, OF False b])
    then show ?thesis by (simp add: failed_attempts_counts)
  qed
qed

theorem DeleteFile_retry_loop_witness:
  "DeleteFile Yes (\<lambda>k _. 2 \<le> k) (\<lambda>_. Retry)
     \<lparr>m_model = [''/games/a.iso'', ''/games/b.iso''], m_table_proxy = [1, 0],
      m_list_proxy = [0, 1],
      m_table = \<lparr>selectedIndexes = [\<lparr>row = 0, column = 0\<rparr>]\<rparr>,
      m_list = \<lparr>selectedIndexes = []\<rparr>,
      m_prefer_table = True, currentWidget = W_table\<rparr> =
     Some (Inr ([''/games/a.iso''],
                [confirm_exec Yes,
                 File_Delete_call ''/games/b.iso'' False, error_dialog_exec Retry,
                 File_Delete_call ''/games/b.iso'' False, error_dialog_exec Retry,
                 File_Delete_call ''/games/b.iso'' True, RemoveGame_call ''/games/b.iso''])) \<and>
   DeleteFile Yes (\<lambda>_ _. False) (\<lambda>k. if k = 0 then Retry else Abort)
     \<lparr>m_model = [''/games/a.iso'', ''/games/b.iso''], m_table_proxy = [1, 0],
      m_list_proxy = [0, 1],
      m_table = \<lparr>selectedIndexes = [\<lparr>row = 0, column = 0\<rparr>]\<rparr>,
      m_list = \<lparr>selectedIndexes = []\<rparr>,
      m_prefer_table = True, currentWidget = W_table\<rparr> =
     Some (Inr ([''/games/a.iso'', ''/games/b.iso''],
                [confirm_exec Yes,
                 File_Delete_call ''/games/b.iso'' False, error_dialog_exec Retry,
                 File_Delete_call ''/games/b.iso'' False, error_dialog_exec Abort])) \<and>
   length (filter is_delete_attempt
             [confirm_exec Yes,
              File_Delete_call ''/games/b.iso'' False, error_dialog_exec Retry,
              File_Delete_call ''/games/b.iso'' False, error_dialog_exec Abort]) =
     Suc (length (filter (\<lambda>e. e = error_dialog_exec Retry)
             [confirm_exec Yes,
              File_Delete_call ''/games/b.iso'' False, error_dialog_exec Retry,
              File_Delete_call ''/games/b.iso'' False, error_dialog_exec Abort]))"
proof -
  let ?st = "\<lparr>m_model = [''/games/a.iso'', ''/games/b.iso''], m_table_proxy = [1, 0],
              m_list_proxy = [0, 1],
              m_table = \<lparr>selectedIndexes = [\<lparr>row = 0, column = 0\<rparr>]\<rparr>,
              m_list = \<lparr>selectedIndexes = []\<rparr>,
              m_prefer_table = True, currentWidget = W_table\<rparr>"
  have sel: "GetSelectedGame ?st = Inr ''/games/b.iso''"
    by (simp add: GetSelectedGame_def hasSelection_def mapToSource_def GetPath_def rowCount_def)
  have succeeds:
    "DeleteFile Yes (\<lambda>k _. 2 \<le> k) (\<lambda>_. Retry) ?st =
       Some (Inr ([''/games/a.iso''],
                  [confirm_exec Yes,
                   File_Delete_call ''/games/b.iso'' False, error_dialog_exec Retry,
                   File_Delete_call ''/games/b.iso'' False, error_dialog_exec Retry,
                   File_Delete_call ''/games/b.iso'' True, RemoveGame_call ''/games/b.iso'']))"
    using DeleteFile_retry_loop
            [where st = ?st and game = "''/games/b.iso''" and n = 2
               and File_Delete = "\<lambda>k _. 2 \<le> k" and error_exec = "\<lambda>_. Retry", OF sel]
    by (simp add: failed_attempts_def eval_nat_numeral RemoveGame_def)
  have aborts:
    "DeleteFile Yes (\<lambda>_ _. False) (\<lambda>k. if k = 0 then Retry else Abort) ?st =
       Some (Inr ([''/games/a.iso'', ''/games/b.iso''],
                  [confirm_exec Yes,
                   File_Delete_call ''/games/b.iso'' False, error_dialog_exec Retry,
                   File_Delete_call ''/games/b.iso'' False, error_dialog_exec Abort]))"
    using DeleteFile_retry_loop
            [where st = ?st and game = "''/games/b.iso''" and n = 1
               and File_Delete = "\<lambda>_ _. False"
               and error_exec = "\<lambda>k. if k = 0 then Retry else Abort", OF sel]
    by (simp add: failed_attempts_def)
  have counts:
    "length (filter is_delete_attempt
               [confirm_exec Yes,
                File_Delete_call ''/games/b.iso'' False, error_dialog_exec Retry,
                File_Delete_call ''/games/b.iso'' False, error_dialog_exec Abort]) =
       Suc (length (filter (\<lambda>e. e = error_dialog_exec Retry)
               [confirm_exec Yes,
                File_Delete_call ''/games/b.iso'' False, error_dialog_exec Retry,
                File_Delete_call ''/games/b.iso'' False, error_dialog_exec Abort]))"
    using DeleteFile_retry_loop
            [where st = ?st and game = "''/games/b.iso''" and n = 1
               and File_Delete = "\<lambda>_ _. False"
               and error_exec = "\<lambda>k. if k = 0 then Retry else Abort"
               and m' = "[''/games/a.iso'', ''/games/b.iso'']"
               and evs = "[confirm_exec Yes,
                           File_Delete_call ''/games/b.iso'' False, error_dialog_exec Retry,
                           File_Delete_call ''/games/b.iso'' False, error_dialog_exec Abort]",
             OF sel]
      aborts
    by simp
  from succeeds aborts counts show ?thesis by (intro conjI)
qed


end
